theory Spec2Isabelle
  imports Main "HOL-Library.Char_ord" "HOL-Library.List_Lexorder" "HOL-Library.Multiset"
    "HOL-Library.Monad_Syntax" "HOL-Library.Sublist" "HOL-Library.AList"
begin

section \<open>Python values\<close>

text \<open>
  The metadata documents and the settings of fmu-dataio are Python dictionaries read from
  YAML or built by the caller. A value is one of the JSON-like shapes below, or one of
  the two objects the settings may hold: a \<^verbatim>\<open>pathlib.Path\<close> and a member of the
  \<^verbatim>\<open>FmuContext\<close> enum. A dictionary is an association list in insertion order with
  string keys. A Python \<^verbatim>\<open>str\<close> is modelled by its UTF-8 bytes, so that a character
  outside ASCII is a run of bytes above 127. Floats are left out.
\<close>

datatype pyval =
    PNone
  | PBool bool
  | PInt int
  | PStr string
  | PList "pyval list"
  | PDict "(string \<times> pyval) list"
  | PPath string
  | PFmuContext string

type_synonym pydict = "(string \<times> pyval) list"

text \<open>Truth value testing (\<^verbatim>\<open>if x:\<close>): None, False, 0 and empty containers are false.\<close>

fun truthy :: "pyval \<Rightarrow> bool" where
  "truthy PNone = False"
| "truthy (PBool b) = b"
| "truthy (PInt i) = (i \<noteq> 0)"
| "truthy (PStr s) = (s \<noteq> [])"
| "truthy (PList xs) = (xs \<noteq> [])"
| "truthy (PDict d) = (d \<noteq> [])"
| "truthy (PPath p) = True"
| "truthy (PFmuContext c) = True"

text \<open>\<^verbatim>\<open>d.get(k)\<close>: the value stored under \<open>k\<close>, or None.\<close>

definition dict_get :: "pydict \<Rightarrow> string \<Rightarrow> pyval" where
  "dict_get d k = (case map_of d k of None \<Rightarrow> PNone | Some v \<Rightarrow> v)"

text \<open>
  An instance is its attribute dictionary: \<^verbatim>\<open>setattr\<close> stores under the name, keeping the
  place of a name already there, and reading an attribute is a lookup.
\<close>

definition setattr :: "pydict \<Rightarrow> string \<Rightarrow> pyval \<Rightarrow> pydict" where
  "setattr self k v = AList.update k v self"

definition getattr :: "pydict \<Rightarrow> string \<Rightarrow> pyval" where
  "getattr self k = dict_get self k"

text \<open>\<^verbatim>\<open>k in d\<close> for a dictionary.\<close>

definition has_key :: "(string \<times> 'a) list \<Rightarrow> string \<Rightarrow> bool" where
  "has_key d k = (map_of d k \<noteq> None)"

section \<open>Exceptions\<close>

text \<open>
  Every \<^verbatim>\<open>raise\<close> of the two modules is one constructor, named by the exception class
  and the place that raises it; \<open>class_of\<close> gives the Python class back.
  \<open>PydanticValidationError\<close> stands for a failure of pydantic's own field validation,
  \<open>External\<close> for an exception raised inside a function of another module, named by
  the function.
\<close>

datatype exc_class = ValueError | ValidationError | KeyError | IndexError | TypeError
  | AttributeError | PydanticError | OtherError

datatype error =
    ValueError_aggregation_and_realization
  | ValueError_non_ascii_path
  | ValueError_class_data_spec
  | PydanticValidationError
  | ValidationError_key_not_supported string
  | ValidationError_wrong_type string
  | ValidationError_requires_additional_input string
  | ValueError_content_format
  | ValidationError_content_str_or_dict
  | ValidationError_invalid_content string
  | ValidationError_content_fields string
  | ValueError_config_outside_init
  | ValueError_aggregation_id_not_str
  | ValueError_casepath_not_exist
  | ValueError_empty_name
  | ValueError_invalid_suffix
  | KeyError_missing string
  | TypeError_not_subscriptable
  | TypeError_unexpected_keyword string
  | TypeError_multiple_values string
  | TypeError_not_pathlike
  | AttributeError_items
  | IndexError_list_index
  | External string

fun class_of :: "error \<Rightarrow> exc_class" where
  "class_of ValueError_aggregation_and_realization = ValueError"
| "class_of ValueError_non_ascii_path = ValueError"
| "class_of ValueError_class_data_spec = ValueError"
| "class_of PydanticValidationError = PydanticError"
| "class_of (ValidationError_key_not_supported k) = ValidationError"
| "class_of (ValidationError_wrong_type k) = ValidationError"
| "class_of (ValidationError_requires_additional_input c) = ValidationError"
| "class_of ValueError_content_format = ValueError"
| "class_of ValidationError_content_str_or_dict = ValidationError"
| "class_of (ValidationError_invalid_content c) = ValidationError"
| "class_of (ValidationError_content_fields c) = ValidationError"
| "class_of ValueError_config_outside_init = ValueError"
| "class_of ValueError_aggregation_id_not_str = ValueError"
| "class_of ValueError_casepath_not_exist = ValueError"
| "class_of ValueError_empty_name = ValueError"
| "class_of ValueError_invalid_suffix = ValueError"
| "class_of (KeyError_missing k) = KeyError"
| "class_of TypeError_not_subscriptable = TypeError"
| "class_of (TypeError_unexpected_keyword k) = TypeError"
| "class_of (TypeError_multiple_values k) = TypeError"
| "class_of TypeError_not_pathlike = TypeError"
| "class_of AttributeError_items = AttributeError"
| "class_of IndexError_list_index = IndexError"
| "class_of (External s) = OtherError"

section \<open>Strings and paths of the Python library\<close>

text \<open>
  \<^verbatim>\<open>s.replace(old, new)\<close> replaces the occurrences of \<open>old\<close> from the left, without
  overlap; an empty \<open>old\<close> matches before every character and at the end.
\<close>

function replace :: "string \<Rightarrow> string \<Rightarrow> string \<Rightarrow> string" where
  "replace s old new =
     (if old = [] then new @ concat (map (\<lambda>c. c # new) s)
      else if s = [] then []
      else if prefix old s then new @ replace (drop (length old) s) old new
      else hd s # replace (tl s) old new)"
  by pat_completeness auto
termination
  by (relation "measure (\<lambda>(s, old, new). length s)") auto

declare replace.simps [simp del]

text \<open>\<^verbatim>\<open>s.split(sep)\<close> for a separator of one character, and \<^verbatim>\<open>sep.join(xs)\<close>.\<close>

fun split :: "char \<Rightarrow> string \<Rightarrow> string list" where
  "split sep [] = [[]]"
| "split sep (c # cs) =
     (if c = sep then [] # split sep cs
      else (case split sep cs of x # xs \<Rightarrow> (c # x) # xs | [] \<Rightarrow> [[c]]))"

fun join :: "string \<Rightarrow> string list \<Rightarrow> string" where
  "join sep [] = []"
| "join sep [x] = x"
| "join sep (x # y # ys) = x @ sep @ join sep (y # ys)"

text \<open>\<^verbatim>\<open>s.rfind(c)\<close>: the index of the last \<open>c\<close> in \<open>s\<close>, or -1.\<close>

definition rfind :: "char \<Rightarrow> string \<Rightarrow> int" where
  "rfind c s =
     (if c \<in> set s
      then int (length s) - 1 - int (length (takeWhile (\<lambda>x. x \<noteq> c) (rev s)))
      else - 1)"

text \<open>
  A \<^verbatim>\<open>pathlib\<close> path on a POSIX system is a root (empty, one slash or two) and the
  list of its components. \<open>Path_of s\<close> is \<^verbatim>\<open>Path(s)\<close>: empty components and "."
  are dropped; exactly two leading slashes are kept as the root.
\<close>

record Path =
  path_root :: string
  path_parts :: "string list"

definition splitroot :: "string \<Rightarrow> string \<times> string" where
  "splitroot part =
     (if part \<noteq> [] \<and> hd part = CHR ''/''
      then (let stripped_part = dropWhile (\<lambda>c. c = CHR ''/'') part in
            if length part - length stripped_part = 2 then (''//'', stripped_part)
            else (''/'', stripped_part))
      else ([], part))"

definition Path_of :: "string \<Rightarrow> Path" where
  "Path_of s =
     (case splitroot s of
        (root, rel) \<Rightarrow>
          \<lparr> path_root = root,
            path_parts = filter (\<lambda>x. x \<noteq> [] \<and> x \<noteq> ''.'') (split CHR ''/'' rel) \<rparr>)"

text \<open>\<^verbatim>\<open>str(p)\<close>, \<^verbatim>\<open>p / s\<close>, \<^verbatim>\<open>p.name\<close>, \<^verbatim>\<open>p.suffix\<close>, \<^verbatim>\<open>p.stem\<close>, \<^verbatim>\<open>p.parent\<close>.\<close>

definition path_str :: "Path \<Rightarrow> string" where
  "path_str p =
     (if path_root p = [] \<and> path_parts p = [] then ''.''
      else path_root p @ join ''/'' (path_parts p))"

definition truediv :: "Path \<Rightarrow> string \<Rightarrow> Path" where
  "truediv p s =
     (let q = Path_of s in
      if path_root q \<noteq> [] then q
      else \<lparr> path_root = path_root p, path_parts = path_parts p @ path_parts q \<rparr>)"

definition path_name :: "Path \<Rightarrow> string" where
  "path_name p = (if path_parts p = [] then [] else last (path_parts p))"

definition path_suffix :: "Path \<Rightarrow> string" where
  "path_suffix p =
     (let name = path_name p; i = rfind CHR ''.'' name in
      if 0 < i \<and> i < int (length name) - 1 then drop (nat i) name else [])"

definition path_stem :: "Path \<Rightarrow> string" where
  "path_stem p =
     (let name = path_name p; i = rfind CHR ''.'' name in
      if 0 < i \<and> i < int (length name) - 1 then take (nat i) name else name)"

definition path_parent :: "Path \<Rightarrow> Path" where
  "path_parent p =
     (if path_parts p = [] then p
      else \<lparr> path_root = path_root p, path_parts = butlast (path_parts p) \<rparr>)"

text \<open>\<^verbatim>\<open>p.with_suffix(suffix)\<close> replaces the suffix of the last component, or appends to
  a component that has none; it raises on a bad suffix and on a path without a name.\<close>

definition with_suffix :: "Path \<Rightarrow> string \<Rightarrow> error + Path" where
  "with_suffix p sfx =
     (if CHR ''/'' \<in> set sfx \<or> (sfx \<noteq> [] \<and> hd sfx \<noteq> CHR ''.'') \<or> sfx = ''.''
      then Inl ValueError_invalid_suffix
      else (let name = path_name p in
            if name = [] then Inl ValueError_empty_name
            else (let old_suffix = path_suffix p;
                      name' = (if old_suffix = [] then name @ sfx
                               else take (length name - length old_suffix) name @ sfx)
                  in Inr \<lparr> path_root = path_root p,
                           path_parts = butlast (path_parts p) @ [name'] \<rparr>)))"

text \<open>\<^verbatim>\<open>p.absolute()\<close> in the working directory \<open>cwd\<close>.\<close>

definition absolute :: "Path \<Rightarrow> Path \<Rightarrow> Path" where
  "absolute cwd p =
     (if path_root p \<noteq> [] then p
      else \<lparr> path_root = path_root cwd, path_parts = path_parts cwd @ path_parts p \<rparr>)"

section \<open>meta.py: the metadata schema\<close>

subsection \<open>Field validation by pydantic\<close>

text \<open>
  pydantic validates each declared field against its annotation. What it accepts for a
  scalar annotation, or for a model declared without a validator of its own, is a
  parameter: \<open>field V a v\<close> is the validated value, or None when pydantic rejects
  \<open>v\<close> for the annotation \<open>a\<close>. The data block (\<^verbatim>\<open>content.AnyData\<close>, a module that
  is not part of the sources here) is validated by \<open>any_data V\<close>. A model validation
  that raises has the value None.
\<close>

datatype annotation =
    A_Path | A_str | A_int | A_UUID | A_list_int | A_Parameters | A_object
  | A_Case | A_Model | A_Context | A_Iteration | A_Workflow
  | A_Masterdata | A_Tracklog | A_Access | A_SsdlAccess | A_Display
  | A_FMUCaseAttributes

record Data =
  data_content :: pyval
  spec :: "pyval option"
  data_other :: pydict

record pydantic =
  field :: "annotation \<Rightarrow> pyval \<Rightarrow> pyval option"
  any_data :: "pyval \<Rightarrow> Data option"

text \<open>A required field, a required field that may be None, and a field with default None.\<close>

definition required :: "pydantic \<Rightarrow> annotation \<Rightarrow> pydict \<Rightarrow> string \<Rightarrow> pyval option" where
  "required V a d k = (case map_of d k of None \<Rightarrow> None | Some v \<Rightarrow> field V a v)"

definition required_optional ::
  "pydantic \<Rightarrow> annotation \<Rightarrow> pydict \<Rightarrow> string \<Rightarrow> pyval option option" where
  "required_optional V a d k =
     (case map_of d k of
        None \<Rightarrow> None
      | Some PNone \<Rightarrow> Some None
      | Some v \<Rightarrow> map_option Some (field V a v))"

definition optional ::
  "pydantic \<Rightarrow> annotation \<Rightarrow> pydict \<Rightarrow> string \<Rightarrow> pyval option option" where
  "optional V a d k =
     (case map_of d k of
        None \<Rightarrow> Some None
      | Some PNone \<Rightarrow> Some None
      | Some v \<Rightarrow> map_option Some (field V a v))"

definition optional_model :: "(pyval \<Rightarrow> 'a option) \<Rightarrow> pydict \<Rightarrow> string \<Rightarrow> 'a option option" where
  "optional_model validate d k =
     (case map_of d k of
        None \<Rightarrow> Some None
      | Some PNone \<Rightarrow> Some None
      | Some v \<Rightarrow> map_option Some (validate v))"

definition required_model :: "(pyval \<Rightarrow> 'a option) \<Rightarrow> pydict \<Rightarrow> string \<Rightarrow> 'a option" where
  "required_model validate d k = (case map_of d k of None \<Rightarrow> None | Some v \<Rightarrow> validate v)"

definition literal :: "string \<Rightarrow> pydict \<Rightarrow> string \<Rightarrow> unit option" where
  "literal l d k = (if map_of d k = Some (PStr l) then Some () else None)"

subsection \<open>File\<close>

text \<open>\<^verbatim>\<open>str.isascii()\<close>: every character is below 128.\<close>

definition isascii :: "string \<Rightarrow> bool" where
  "isascii s = list_all (\<lambda>c. (of_char c :: nat) < 128) s"

text \<open>
  \<^verbatim>\<open>str(path)\<close>: a string is itself and a Path is its text; what \<^verbatim>\<open>str\<close> prints for a
  value of another type is the parameter \<open>repr\<close>.
\<close>

definition py_str :: "(pyval \<Rightarrow> string) \<Rightarrow> pyval \<Rightarrow> string" where
  "py_str repr v = (case v of PStr s \<Rightarrow> s | PPath p \<Rightarrow> p | _ \<Rightarrow> repr v)"

record File =
  absolute_path :: "pyval option"
  relative_path :: pyval
  checksum_md5 :: "pyval option"
  size_bytes :: "pyval option"
  relative_path_symlink :: "pyval option"
  absolute_path_symlink :: "pyval option"

text \<open>The \<^verbatim>\<open>mode="before"\<close> validator of \<^verbatim>\<open>File\<close>, on the raw dictionary.\<close>

definition check_for_non_ascii_in_path :: "(pyval \<Rightarrow> string) \<Rightarrow> pydict \<Rightarrow> error + pydict" where
  "check_for_non_ascii_in_path repr values =
     (let path = dict_get values ''absolute_path'' in
      if truthy path \<and> \<not> isascii (py_str repr path)
      then Inl ValueError_non_ascii_path
      else Inr values)"

definition validate_File :: "pydantic \<Rightarrow> (pyval \<Rightarrow> string) \<Rightarrow> pyval \<Rightarrow> File option" where
  "validate_File V repr v =
     (case v of
        PDict values0 \<Rightarrow>
          (case check_for_non_ascii_in_path repr values0 of
             Inl e \<Rightarrow> None
           | Inr values \<Rightarrow> do {
               ap \<leftarrow> optional V A_Path values ''absolute_path'';
               rp \<leftarrow> required V A_Path values ''relative_path'';
               md5 \<leftarrow> required_optional V A_str values ''checksum_md5'';
               sz \<leftarrow> optional V A_int values ''size_bytes'';
               rps \<leftarrow> optional V A_Path values ''relative_path_symlink'';
               aps \<leftarrow> optional V A_Path values ''absolute_path_symlink'';
               Some \<lparr> absolute_path = ap, relative_path = rp, checksum_md5 = md5,
                      size_bytes = sz, relative_path_symlink = rps,
                      absolute_path_symlink = aps \<rparr>
             })
      | _ \<Rightarrow> None)"

subsection \<open>Aggregation, Realization and FMUAttributes\<close>

record Aggregation =
  agg_id :: pyval
  agg_operation :: pyval
  agg_realization_ids :: pyval
  agg_parameters :: "pyval option"

definition validate_Aggregation :: "pydantic \<Rightarrow> pyval \<Rightarrow> Aggregation option" where
  "validate_Aggregation V v =
     (case v of
        PDict d \<Rightarrow> do {
          i \<leftarrow> required V A_UUID d ''id'';
          op \<leftarrow> required V A_str d ''operation'';
          rs \<leftarrow> required V A_list_int d ''realization_ids'';
          ps \<leftarrow> optional V A_Parameters d ''parameters'';
          Some \<lparr> agg_id = i, agg_operation = op, agg_realization_ids = rs,
                 agg_parameters = ps \<rparr>
        }
      | _ \<Rightarrow> None)"

record Realization =
  real_id :: pyval
  real_name :: pyval
  real_parameters :: "pyval option"
  real_jobs :: "pyval option"
  real_uuid :: pyval

definition validate_Realization :: "pydantic \<Rightarrow> pyval \<Rightarrow> Realization option" where
  "validate_Realization V v =
     (case v of
        PDict d \<Rightarrow> do {
          i \<leftarrow> required V A_int d ''id'';
          n \<leftarrow> required V A_str d ''name'';
          ps \<leftarrow> optional V A_Parameters d ''parameters'';
          js \<leftarrow> optional V A_object d ''jobs'';
          u \<leftarrow> required V A_UUID d ''uuid'';
          Some \<lparr> real_id = i, real_name = n, real_parameters = ps,
                 real_jobs = js, real_uuid = u \<rparr>
        }
      | _ \<Rightarrow> None)"

record FMUAttributes =
  fmu_case :: pyval
  fmu_model :: pyval
  fmu_context :: pyval
  fmu_iteration :: "pyval option"
  fmu_workflow :: "pyval option"
  fmu_aggregation :: "Aggregation option"
  fmu_realization :: "Realization option"

text \<open>The \<^verbatim>\<open>mode="before"\<close> validator of \<^verbatim>\<open>FMUAttributes\<close>, on the raw dictionary.\<close>

definition dependencies_aggregation_realization :: "pydict \<Rightarrow> error + pydict" where
  "dependencies_aggregation_realization values =
     (let aggregation = dict_get values ''aggregation'';
          realization = dict_get values ''realization'' in
      if truthy aggregation \<and> truthy realization
      then Inl ValueError_aggregation_and_realization
      else Inr values)"

definition validate_FMUAttributes :: "pydantic \<Rightarrow> pyval \<Rightarrow> FMUAttributes option" where
  "validate_FMUAttributes V v =
     (case v of
        PDict values0 \<Rightarrow>
          (case dependencies_aggregation_realization values0 of
             Inl e \<Rightarrow> None
           | Inr values \<Rightarrow> do {
               c \<leftarrow> required V A_Case values ''case'';
               m \<leftarrow> required V A_Model values ''model'';
               cx \<leftarrow> required V A_Context values ''context'';
               it \<leftarrow> optional V A_Iteration values ''iteration'';
               wf \<leftarrow> optional V A_Workflow values ''workflow'';
               ag \<leftarrow> optional_model (validate_Aggregation V) values ''aggregation'';
               re \<leftarrow> optional_model (validate_Realization V) values ''realization'';
               Some \<lparr> fmu_case = c, fmu_model = m, fmu_context = cx, fmu_iteration = it,
                      fmu_workflow = wf, fmu_aggregation = ag, fmu_realization = re \<rparr>
             })
      | _ \<Rightarrow> None)"

subsection \<open>The root model\<close>

datatype FMUClass =
    class_case | class_surface | class_table | class_cpgrid | class_cpgrid_property
  | class_polygons | class_cube | class_well | class_points | class_dictionary

text \<open>The classes \<^verbatim>\<open>ObjectMetadata.class_\<close> lists, by the value of each enum member.\<close>

definition object_classes :: "(string \<times> FMUClass) list" where
  "object_classes =
     [(''surface'', class_surface), (''table'', class_table), (''cpgrid'', class_cpgrid),
      (''cpgrid_property'', class_cpgrid_property), (''polygons'', class_polygons),
      (''cube'', class_cube), (''well'', class_well), (''points'', class_points),
      (''dictionary'', class_dictionary)]"

record MetadataBase =
  metadata_class :: FMUClass
  masterdata :: pyval
  tracklog :: pyval

record CaseMetadata = MetadataBase +
  case_fmu :: pyval
  case_access :: pyval

record ObjectMetadata = MetadataBase +
  fmu :: FMUAttributes
  access :: pyval
  data :: Data
  file_block :: File
  display :: pyval

datatype Root = RootCase CaseMetadata | RootObject ObjectMetadata

definition validate_CaseMetadata :: "pydantic \<Rightarrow> pydict \<Rightarrow> CaseMetadata option" where
  "validate_CaseMetadata V d = do {
     md \<leftarrow> required V A_Masterdata d ''masterdata'';
     tl \<leftarrow> required V A_Tracklog d ''tracklog'';
     _ \<leftarrow> literal ''fmu'' d ''source'';
     _ \<leftarrow> literal ''0.8.0'' d ''version'';
     f \<leftarrow> required V A_FMUCaseAttributes d ''fmu'';
     a \<leftarrow> required V A_Access d ''access'';
     Some \<lparr> metadata_class = class_case, masterdata = md, tracklog = tl, case_fmu = f,
            case_access = a \<rparr>
   }"

definition validate_ObjectMetadata ::
  "pydantic \<Rightarrow> (pyval \<Rightarrow> string) \<Rightarrow> FMUClass \<Rightarrow> pydict \<Rightarrow> ObjectMetadata option" where
  "validate_ObjectMetadata V repr c d = do {
     md \<leftarrow> required V A_Masterdata d ''masterdata'';
     tl \<leftarrow> required V A_Tracklog d ''tracklog'';
     _ \<leftarrow> literal ''fmu'' d ''source'';
     _ \<leftarrow> literal ''0.8.0'' d ''version'';
     f \<leftarrow> required_model (validate_FMUAttributes V) d ''fmu'';
     a \<leftarrow> required V A_SsdlAccess d ''access'';
     dt \<leftarrow> required_model (any_data V) d ''data'';
     fl \<leftarrow> required_model (validate_File V repr) d ''file'';
     dp \<leftarrow> required V A_Display d ''display'';
     Some \<lparr> metadata_class = c, masterdata = md, tracklog = tl, fmu = f, access = a, data = dt,
            file_block = fl, display = dp \<rparr>
   }"

text \<open>The union of the two models, told apart by the \<^verbatim>\<open>class\<close> key.\<close>

definition validate_union :: "pydantic \<Rightarrow> (pyval \<Rightarrow> string) \<Rightarrow> pyval \<Rightarrow> Root option" where
  "validate_union V repr v =
     (case v of
        PDict d \<Rightarrow>
          (case map_of d ''class'' of
             Some (PStr c) \<Rightarrow>
               if c = ''case'' then map_option RootCase (validate_CaseMetadata V d)
               else (case map_of object_classes c of
                       Some cl \<Rightarrow> map_option RootObject (validate_ObjectMetadata V repr cl d)
                     | None \<Rightarrow> None)
           | _ \<Rightarrow> None)
      | _ \<Rightarrow> None)"

text \<open>What \<^verbatim>\<open>self.root.class_\<close>, \<^verbatim>\<open>hasattr(self.root, "data")\<close> and
  \<^verbatim>\<open>self.root.data.root.spec\<close> read from the validated model.\<close>

fun root_class :: "Root \<Rightarrow> FMUClass" where
  "root_class (RootCase m) = metadata_class m"
| "root_class (RootObject m) = metadata_class m"

fun hasattr_data :: "Root \<Rightarrow> bool" where
  "hasattr_data (RootCase m) = False"
| "hasattr_data (RootObject m) = True"

fun root_data_spec :: "Root \<Rightarrow> pyval option" where
  "root_data_spec (RootCase m) = None"
| "root_data_spec (RootObject m) = spec (data m)"

text \<open>The \<^verbatim>\<open>mode="after"\<close> validator of \<^verbatim>\<open>Root\<close>, on the validated model.\<close>

definition check_class_data_spec :: "Root \<Rightarrow> error + Root" where
  "check_class_data_spec self =
     (if root_class self \<in> set [class_table, class_surface]
         \<and> hasattr_data self
         \<and> root_data_spec self = None
      then Inl ValueError_class_data_spec
      else Inr self)"

definition validate_Root :: "pydantic \<Rightarrow> (pyval \<Rightarrow> string) \<Rightarrow> pyval \<Rightarrow> Root option" where
  "validate_Root V repr v =
     (case validate_union V repr v of
        None \<Rightarrow> None
      | Some root \<Rightarrow> (case check_class_data_spec root of Inl e \<Rightarrow> None | Inr r \<Rightarrow> Some r))"

subsection \<open>An instance of the field validation, and example documents\<close>

text \<open>
  For the examples: a scalar that already has the annotated type is accepted as it is
  (a UUID in its canonical text form), and the models that have no validator of their
  own are taken to accept any dictionary.
\<close>

definition is_hex :: "char \<Rightarrow> bool" where
  "is_hex c = (c \<in> set ''0123456789abcdefABCDEF'')"

definition canonical_uuid :: "string \<Rightarrow> bool" where
  "canonical_uuid s =
     (length s = 36
      \<and> list_all (\<lambda>i. if i \<in> set [8, 13, 18, 23] then s ! i = CHR ''-'' else is_hex (s ! i))
           [0..<36])"

definition example_field :: "annotation \<Rightarrow> pyval \<Rightarrow> pyval option" where
  "example_field a v =
     (case v of
        PStr s \<Rightarrow>
          (if a = A_Path then Some (PPath s)
           else if a = A_str \<or> a = A_object then Some (PStr s)
           else if a = A_UUID \<and> canonical_uuid s then Some (PStr s)
           else None)
      | PPath p \<Rightarrow> (if a = A_Path \<or> a = A_object then Some (PPath p) else None)
      | PInt i \<Rightarrow> (if a = A_int \<or> a = A_object then Some (PInt i) else None)
      | PList xs \<Rightarrow>
          (if a = A_object \<or> a = A_Tracklog then Some (PList xs)
           else if a = A_list_int \<and> list_all (\<lambda>x. case x of PInt i \<Rightarrow> True | _ \<Rightarrow> False) xs
           then Some (PList xs)
           else None)
      | PDict d \<Rightarrow>
          (if a \<in> set [A_Parameters, A_object, A_Case, A_Model, A_Context, A_Iteration,
                        A_Workflow, A_Masterdata, A_Access, A_SsdlAccess, A_Display,
                        A_FMUCaseAttributes]
           then Some (PDict d) else None)
      | _ \<Rightarrow> (if a = A_object then Some v else None))"

definition example_any_data :: "pyval \<Rightarrow> Data option" where
  "example_any_data v =
     (case v of
        PDict d \<Rightarrow>
          (case map_of d ''content'' of
             Some c \<Rightarrow>
               Some \<lparr> data_content = c,
                      spec = (case map_of d ''spec'' of
                                None \<Rightarrow> None | Some PNone \<Rightarrow> None | Some s \<Rightarrow> Some s),
                      data_other = d \<rparr>
           | None \<Rightarrow> None)
      | _ \<Rightarrow> None)"

definition example_pydantic :: pydantic where
  "example_pydantic = \<lparr> field = example_field, any_data = example_any_data \<rparr>"

definition example_realization :: pyval where
  "example_realization =
     PDict [(''id'', PInt 33), (''name'', PStr ''realization-33''),
            (''uuid'', PStr ''15ce3b84-766f-4c93-9050-b154861f9100'')]"

definition example_aggregation :: pyval where
  "example_aggregation =
     PDict [(''id'', PStr ''15ce3b84-766f-4c93-9050-b154861f9100''),
            (''operation'', PStr ''mean''),
            (''realization_ids'', PList [PInt 33, PInt 34])]"

definition example_fmu :: "pydict" where
  "example_fmu =
     [(''case'', PDict [(''name'', PStr ''MyCaseName'')]),
      (''model'', PDict [(''name'', PStr ''Drogon'')]),
      (''context'', PDict [(''stage'', PStr ''realization'')])]"

definition example_object :: "string \<Rightarrow> pydict \<Rightarrow> pydict \<Rightarrow> pydict \<Rightarrow> pyval" where
  "example_object c fmu_blk data_blk file_blk =
     PDict [(''class'', PStr c),
            (''masterdata'', PDict [(''smda'', PDict [])]),
            (''tracklog'', PList []),
            (''source'', PStr ''fmu''),
            (''version'', PStr ''0.8.0''),
            (''fmu'', PDict fmu_blk),
            (''access'', PDict [(''asset'', PDict [(''name'', PStr ''Drogon'')])]),
            (''data'', PDict data_blk),
            (''file'', PDict file_blk),
            (''display'', PDict [])]"

definition example_file :: pydict where
  "example_file =
     [(''relative_path'', PStr ''realization-33/iter-0/share/results/maps/x.gri''),
      (''checksum_md5'', PNone)]"

definition example_document :: "string \<Rightarrow> pydict \<Rightarrow> pyval" where
  "example_document c data_blk =
     example_object c (example_fmu @ [(''realization'', example_realization)]) data_blk
       example_file"

definition example_repr :: "pyval \<Rightarrow> string" where
  "example_repr v = []"

definition non_ascii_relative_file :: pydict where
  "non_ascii_relative_file =
     [(''relative_path'', PStr (''share/results/maps/bl'' @ [CHR 0xC3, CHR 0xA5] @ ''.gri'')),
      (''checksum_md5'', PNone)]"

definition non_ascii_absolute_file :: pydict where
  "non_ascii_absolute_file =
     [(''absolute_path'', PStr (''/scratch/bl'' @ [CHR 0xC3, CHR 0xA5] @ ''/share/results/maps/x.gri'')),
      (''relative_path'', PStr ''share/results/maps/x.gri''),
      (''checksum_md5'', PNone)]"

section \<open>dataio.py: the content validator\<close>

text \<open>
  \<^verbatim>\<open>AllowedContent\<close> is declared in \<^verbatim>\<open>datastructure/_internal/internal.py\<close>, which is
  not among the sources here. What \<^verbatim>\<open>dataio.py\<close> uses of it is a parameter: the names
  of its fields (the content taxonomy, in declaration order), the test whether a content
  needs extra fields, and the validation of the extra fields of one content,
  \<^verbatim>\<open>AllowedContent.model_validate({name: fields}).model_dump(...)[name]\<close>, which is None
  when pydantic raises.
\<close>

record AllowedContent =
  model_fields :: "string list"
  requires_additional_input :: "string \<Rightarrow> bool"
  model_validate_dump :: "string \<Rightarrow> pydict \<Rightarrow> pyval option"

definition content_validate :: "AllowedContent \<Rightarrow> string \<Rightarrow> pydict \<Rightarrow> error + pyval" where
  "content_validate AC name extra =
     (case model_validate_dump AC name extra of
        Some dumped \<Rightarrow> Inr dumped
      | None \<Rightarrow> Inl (ValidationError_content_fields name))"

text \<open>
  The first half of \<^verbatim>\<open>_check_content\<close>: the \<^verbatim>\<open>if/elif\<close> chain on the type of the
  declaration gives \<^verbatim>\<open>usecontent\<close> and \<^verbatim>\<open>content_specific\<close>. The first key of an empty
  dictionary is an IndexError.
\<close>

definition resolve_content :: "AllowedContent \<Rightarrow> pyval \<Rightarrow> error + (string \<times> pyval)" where
  "resolve_content AC proposed =
     (case proposed of
        PNone \<Rightarrow> Inr (''unset'', PNone)
      | PStr content \<Rightarrow>
          if requires_additional_input AC content
          then Inl (ValidationError_requires_additional_input content)
          else Inr (content, PNone)
      | PDict content \<Rightarrow>
          (case content of
             [] \<Rightarrow> Inl IndexError_list_index
           | (usecontent, content_specific) # _ \<Rightarrow>
               (case content_specific of
                  PDict _ \<Rightarrow> Inr (usecontent, content_specific)
                | _ \<Rightarrow> Inl ValueError_content_format))
      | _ \<Rightarrow> Inl ValidationError_content_str_or_dict)"

text \<open>
  \<^verbatim>\<open>_check_content\<close>: the resolved name must be "unset" or a name of the taxonomy; extra
  fields that are not empty are validated against the content's schema.
\<close>

definition check_content :: "AllowedContent \<Rightarrow> pyval \<Rightarrow> error + (string \<times> pyval)" where
  "check_content AC proposed =
     (case resolve_content AC proposed of
        Inl e \<Rightarrow> Inl e
      | Inr (usecontent, content_specific) \<Rightarrow>
          if usecontent \<noteq> ''unset'' \<and> usecontent \<notin> set (model_fields AC)
          then Inl (ValidationError_invalid_content usecontent)
          else (case content_specific of
                  PDict extra \<Rightarrow>
                    if extra \<noteq> []
                    then (case content_validate AC usecontent extra of
                            Inl e \<Rightarrow> Inl e
                          | Inr validated \<Rightarrow> Inr (usecontent, validated))
                    else Inr (usecontent, content_specific)
                | _ \<Rightarrow> Inr (usecontent, content_specific)))"

text \<open>
  Modelled from the spec: a small content taxonomy for the examples, with the three names
  the glossary gives ("depth", "time", "fluid_contact"); of these "fluid_contact" is the
  one that takes extra fields, as the docstring of \<^verbatim>\<open>ExportData\<close> shows it. Its extra
  fields are accepted when every value is a string or a boolean.
\<close>

definition example_content :: AllowedContent where
  "example_content =
     \<lparr> model_fields = [''depth'', ''time'', ''fluid_contact''],
       requires_additional_input = (\<lambda>name. name = ''fluid_contact''),
       model_validate_dump = (\<lambda>name extra.
          if name = ''fluid_contact''
             \<and> list_all (\<lambda>(k, v). case v of PStr s \<Rightarrow> True | PBool b \<Rightarrow> True | _ \<Rightarrow> False) extra
          then Some (PDict extra) else None) \<rparr>"

section \<open>dataio.py: settings and their types\<close>

text \<open>
  The classes a setting may be an instance of, and the annotations of the dataclass
  fields. The module has \<^verbatim>\<open>from __future__ import annotations\<close>, so an annotation is
  kept as text and \<^verbatim>\<open>_validate_variable\<close> evaluates it; \<open>hint\<close> is the evaluated
  annotation. \<open>Generic\<close> is a subscripted construct of \<^verbatim>\<open>typing\<close> other than
  ClassVar, Optional and Union (\<^verbatim>\<open>List[list]\<close>, \<^verbatim>\<open>Literal["yaml", "json"]\<close>), kept by
  its text.
\<close>

datatype pytype = T_bool | T_int | T_str | T_list | T_dict | T_NoneType | T_Path | T_FmuContext

datatype hint = Class pytype | ClassVar hint | Optional hint | Union "hint list"
  | Generic string

text \<open>\<^verbatim>\<open>isinstance\<close>: a bool is an int; a member of \<^verbatim>\<open>FmuContext\<close> is not a str.\<close>

fun isinstance :: "pyval \<Rightarrow> pytype \<Rightarrow> bool" where
  "isinstance PNone t = (t = T_NoneType)"
| "isinstance (PBool b) t = (t = T_bool \<or> t = T_int)"
| "isinstance (PInt i) t = (t = T_int)"
| "isinstance (PStr s) t = (t = T_str)"
| "isinstance (PList xs) t = (t = T_list)"
| "isinstance (PDict d) t = (t = T_dict)"
| "isinstance (PPath p) t = (t = T_Path)"
| "isinstance (PFmuContext c) t = (t = T_FmuContext)"

text \<open>The members of a union, flattened as \<^verbatim>\<open>typing\<close> does; Optional adds NoneType.\<close>

fun members :: "hint \<Rightarrow> hint list" where
  "members (Union hs) = concat (map members hs)"
| "members (Optional h) = members h @ [Class T_NoneType]"
| "members (Class c) = [Class c]"
| "members (ClassVar h) = [ClassVar h]"
| "members (Generic s) = [Generic s]"

text \<open>
  \<^verbatim>\<open>validcheck\<close>: the \<^verbatim>\<open>__args__\<close> of the evaluated annotation, or the annotation
  itself when it has none (a plain class). The \<^verbatim>\<open>__args__\<close> of a bare \<open>Generic\<close> are
  not modelled (None); no field of the dataclasses is annotated so.
\<close>

fun validcheck :: "hint \<Rightarrow> hint list option" where
  "validcheck (Class c) = Some [Class c]"
| "validcheck (ClassVar h) = Some [h]"
| "validcheck (Optional h) = Some (members (Optional h))"
| "validcheck (Union hs) = Some (members (Union hs))"
| "validcheck (Generic s) = None"

text \<open>\<^verbatim>\<open>"typing." in str(validcheck)\<close>: a class prints as \<^verbatim>\<open><class 'str'>\<close>, anything
  else with the \<^verbatim>\<open>typing.\<close> prefix.\<close>

fun is_class :: "hint \<Rightarrow> bool" where
  "is_class (Class c) = True"
| "is_class h = False"

definition mentions_typing :: "hint list \<Rightarrow> bool" where
  "mentions_typing hs = (\<not> list_all is_class hs)"

fun isinstance_hint :: "pyval \<Rightarrow> hint \<Rightarrow> bool" where
  "isinstance_hint v (Class c) = isinstance v c"
| "isinstance_hint v h = False"

definition validate_variable :: "string \<Rightarrow> pyval \<Rightarrow> (string \<times> hint) list \<Rightarrow> error + bool" where
  "validate_variable key v legals =
     (case map_of legals key of
        None \<Rightarrow> Inl (ValidationError_key_not_supported key)
      | Some legal_key \<Rightarrow>
          (case validcheck legal_key of
             None \<Rightarrow> Inl (External ''__args__'')
           | Some vc \<Rightarrow>
               if \<not> mentions_typing vc
               then (if \<not> list_ex (isinstance_hint v) vc
                     then Inl (ValidationError_wrong_type key)
                     else Inr True)
               else Inr True))"

text \<open>\<^verbatim>\<open>key.startswith("_")\<close>, and the legal keys: the annotations without the private names.\<close>

definition startswith :: "string \<Rightarrow> string \<Rightarrow> bool" where
  "startswith s p = prefix p s"

definition public_annotations :: "(string \<times> hint) list \<Rightarrow> (string \<times> hint) list" where
  "public_annotations annots = filter (\<lambda>(key, val). \<not> startswith key ''_'') annots"

text \<open>
  The loop \<^verbatim>\<open>for setting, value in newsettings.items(): if _validate_variable(...):
  setattr(self, setting, value)\<close>.
\<close>

fun apply_settings :: "(string \<times> hint) list \<Rightarrow> pydict \<Rightarrow> pydict \<Rightarrow> error + pydict" where
  "apply_settings legals self [] = Inr self"
| "apply_settings legals self ((setting, v) # others) =
     (case validate_variable setting v legals of
        Inl e \<Rightarrow> Inl e
      | Inr ok \<Rightarrow> apply_settings legals (if ok then setattr self setting v else self) others)"

text \<open>\<^verbatim>\<open>ExportData.__annotations__\<close>, in the order of the class body.\<close>

definition ExportData_annotations :: "(string \<times> hint) list" where
  "ExportData_annotations =
     [(''allow_forcefolder_absolute'', ClassVar (Class T_bool)),
      (''arrow_fformat'', ClassVar (Class T_str)),
      (''case_folder'', ClassVar (Class T_str)),
      (''createfolder'', ClassVar (Class T_bool)),
      (''cube_fformat'', ClassVar (Class T_str)),
      (''filename_timedata_reverse'', ClassVar (Class T_bool)),
      (''grid_fformat'', ClassVar (Class T_str)),
      (''include_ertjobs'', ClassVar (Class T_bool)),
      (''legacy_time_format'', ClassVar (Class T_bool)),
      (''meta_format'', ClassVar (Generic ''Literal[yaml, json]'')),
      (''polygons_fformat'', ClassVar (Class T_str)),
      (''points_fformat'', ClassVar (Class T_str)),
      (''surface_fformat'', ClassVar (Class T_str)),
      (''table_fformat'', ClassVar (Class T_str)),
      (''dict_fformat'', ClassVar (Class T_str)),
      (''table_include_index'', ClassVar (Class T_bool)),
      (''verifyfolder'', ClassVar (Class T_bool)),
      (''_inside_rms'', ClassVar (Class T_bool)),
      (''access_ssdl'', Class T_dict),
      (''aggregation'', Class T_bool),
      (''casepath'', Optional (Union [Class T_str, Class T_Path])),
      (''config'', Class T_dict),
      (''content'', Optional (Union [Class T_dict, Class T_str])),
      (''depth_reference'', Class T_str),
      (''description'', Union [Class T_str, Class T_list]),
      (''display_name'', Optional (Class T_str)),
      (''fmu_context'', Union [Class T_FmuContext, Class T_str]),
      (''forcefolder'', Class T_str),
      (''grid_model'', Optional (Class T_str)),
      (''is_observation'', Class T_bool),
      (''is_prediction'', Class T_bool),
      (''name'', Class T_str),
      (''undef_is_zero'', Class T_bool),
      (''parent'', Class T_str),
      (''realization'', Class T_int),
      (''reuse_metadata_rule'', Optional (Class T_str)),
      (''runpath'', Optional (Union [Class T_str, Class T_Path])),
      (''subfolder'', Class T_str),
      (''tagname'', Class T_str),
      (''timedata'', Optional (Generic ''List[list]'')),
      (''unit'', Class T_str),
      (''verbosity'', Class T_str),
      (''vertical_domain'', Class T_dict),
      (''workflow'', Class T_str),
      (''table_index'', Optional (Class T_list)),
      (''_usecontent'', Union [Class T_dict, Class T_str]),
      (''_usefmtflag'', Class T_str),
      (''_metadata'', Class T_dict),
      (''_pwd'', Class T_Path),
      (''_config_is_valid'', Class T_bool),
      (''_rootpath'', Class T_Path)]"

text \<open>
  The instance fields with their defaults: those the generated \<^verbatim>\<open>__init__\<close> takes as
  keyword arguments, then those declared \<^verbatim>\<open>init=False\<close>.
\<close>

definition ExportData_init_defaults :: pydict where
  "ExportData_init_defaults =
     [(''access_ssdl'', PDict []),
      (''aggregation'', PBool False),
      (''casepath'', PNone),
      (''config'', PDict []),
      (''content'', PNone),
      (''depth_reference'', PStr ''msl''),
      (''description'', PStr []),
      (''display_name'', PNone),
      (''fmu_context'', PFmuContext ''REALIZATION''),
      (''forcefolder'', PStr []),
      (''grid_model'', PNone),
      (''is_observation'', PBool False),
      (''is_prediction'', PBool True),
      (''name'', PStr []),
      (''undef_is_zero'', PBool False),
      (''parent'', PStr []),
      (''realization'', PInt (- 999)),
      (''reuse_metadata_rule'', PNone),
      (''runpath'', PNone),
      (''subfolder'', PStr []),
      (''tagname'', PStr []),
      (''timedata'', PNone),
      (''unit'', PStr []),
      (''verbosity'', PStr ''DEPRECATED''),
      (''vertical_domain'', PDict []),
      (''workflow'', PStr []),
      (''table_index'', PNone)]"

definition ExportData_private_defaults :: pydict where
  "ExportData_private_defaults =
     [(''_usecontent'', PDict []),
      (''_usefmtflag'', PStr []),
      (''_metadata'', PDict []),
      (''_pwd'', PPath ''.''),
      (''_config_is_valid'', PBool True),
      (''_rootpath'', PPath ''.'')]"

section \<open>dataio.py: ExportData\<close>

text \<open>
  What \<^verbatim>\<open>ExportData\<close> calls in modules that are not among the sources here:
  \<^verbatim>\<open>FmuContext.get\<close> (the name of the member, or None when it raises), and
  \<^verbatim>\<open>global_configuration.is_valid\<close> and \<^verbatim>\<open>roundtrip\<close>.
\<close>

record externals =
  allowed_content :: AllowedContent
  FmuContext_get :: "pyval \<Rightarrow> string option"
  is_valid :: "pyval \<Rightarrow> bool"
  roundtrip :: "pyval \<Rightarrow> pyval"

text \<open>
  What the process finds around it. \<open>settings_env\<close> is None when the variable
  FMU_DATAIO_CONFIG is not set, and otherwise what \<^verbatim>\<open>some_config_from_env\<close> gives for it:
  a value, or None when it raises; \<open>global_env\<close> is the same for FMU_GLOBAL_CONFIG.
  \<open>cwd\<close> is the working directory, \<open>INSIDE_RMS\<close> the module constant, and
  \<open>resolve\<close> is \<^verbatim>\<open>Path.resolve\<close>, which reads the file system.
\<close>

record environment =
  settings_env :: "pyval option option"
  global_env :: "pyval option option"
  cwd :: Path
  INSIDE_RMS :: bool
  resolve :: "Path \<Rightarrow> Path"

text \<open>
  What outlives a call besides the instance: the class variable
  \<^verbatim>\<open>ExportData._inside_rms\<close> and the warnings given so far.
\<close>

datatype warning =
    UserWarning_verbosity
  | PendingDeprecationWarning_runpath
  | PendingDeprecationWarning_grid_model
  | UserWarning_case_metadata_exists
  | UserWarning_name_not_given

record session =
  inside_rms :: bool
  warnings :: "warning list"

definition warn :: "warning \<Rightarrow> session \<Rightarrow> session" where
  "warn w ses = ses \<lparr> warnings := warnings ses @ [w] \<rparr>"

definition show_deprecations_or_notimplemented :: "pydict \<Rightarrow> session \<Rightarrow> session" where
  "show_deprecations_or_notimplemented self ses =
     (let ses1 = (if truthy (getattr self ''runpath'')
                  then warn PendingDeprecationWarning_runpath ses else ses)
      in if truthy (getattr self ''grid_model'')
         then warn PendingDeprecationWarning_grid_model ses1 else ses1)"

definition validate_content_key :: "externals \<Rightarrow> pydict \<Rightarrow> error + pydict" where
  "validate_content_key X self =
     (case check_content (allowed_content X) (getattr self ''content'') of
        Inl e \<Rightarrow> Inl e
      | Inr (usecontent, content_specific) \<Rightarrow>
          Inr (setattr (setattr self ''_usecontent'' (PStr usecontent))
                 ''_content_specific'' content_specific))"

definition fmucontext_get :: "externals \<Rightarrow> pydict \<Rightarrow> error + pydict" where
  "fmucontext_get X self =
     (case FmuContext_get X (getattr self ''fmu_context'') of
        None \<Rightarrow> Inl (External ''FmuContext.get'')
      | Some c \<Rightarrow> Inr (setattr self ''fmu_context'' (PFmuContext c)))"

definition validate_fmucontext_key :: "externals \<Rightarrow> pydict \<Rightarrow> error + pydict" where
  "validate_fmucontext_key X self =
     (if isinstance (getattr self ''fmu_context'') T_str then fmucontext_get X self
      else Inr self)"

text \<open>
  \<^verbatim>\<open>_update_check_settings\<close>: "config" is taken out of the legal keys and an update that
  has it raises before any setting is looked at.
\<close>

definition update_check_settings ::
  "externals \<Rightarrow> pydict \<times> session \<Rightarrow> pydict \<Rightarrow> error + (pydict \<times> session)" where
  "update_check_settings X st newsettings =
     (case st of (self, ses) \<Rightarrow>
        (let annots = ExportData_annotations;
             legals0 = public_annotations annots;
             legals = (if has_key legals0 ''config'' then AList.delete ''config'' legals0
                       else legals0)
         in if has_key newsettings ''config'' then Inl ValueError_config_outside_init
            else (case apply_settings legals self newsettings of
                    Inl e \<Rightarrow> Inl e
                  | Inr self1 \<Rightarrow>
                      (let ses1 = show_deprecations_or_notimplemented self1 ses in
                       case validate_content_key X self1 of
                         Inl e \<Rightarrow> Inl e
                       | Inr self2 \<Rightarrow>
                           (case validate_fmucontext_key X self2 of
                              Inl e \<Rightarrow> Inl e
                            | Inr self3 \<Rightarrow> Inr (self3, ses1))))))"

text \<open>
  \<^verbatim>\<open>_update_globalconfig_from_settings\<close>. Reading \<^verbatim>\<open>self.config["access"]\<close> raises a
  KeyError when the key is missing and a TypeError when the configuration is not a
  dictionary; storing under "ssdl" raises a TypeError unless the access block is a
  dictionary.
\<close>

definition update_globalconfig_from_settings :: "pydict \<Rightarrow> error + pydict" where
  "update_globalconfig_from_settings self =
     (let newglobals = getattr self ''config'';
          access_ssdl = getattr self ''access_ssdl''
      in if truthy access_ssdl
         then (case newglobals of
                 PDict cfg \<Rightarrow>
                   (case map_of cfg ''access'' of
                      None \<Rightarrow> Inl (KeyError_missing ''access'')
                    | Some (PDict acc) \<Rightarrow>
                        Inr (setattr self ''config''
                               (PDict (AList.update ''access''
                                  (PDict (AList.update ''ssdl'' access_ssdl acc)) cfg)))
                    | Some _ \<Rightarrow> Inl TypeError_not_subscriptable)
               | _ \<Rightarrow> Inl TypeError_not_subscriptable)
         else Inr (setattr self ''config'' newglobals))"

definition check_config_validity :: "externals \<Rightarrow> pydict \<Rightarrow> pydict" where
  "check_config_validity X self =
     (let valid = is_valid X (getattr self ''config'');
          self1 = setattr self ''_config_is_valid'' (PBool valid)
      in if valid then setattr self1 ''config'' (roundtrip X (getattr self1 ''config''))
         else self1)"

text \<open>The text of a \<^verbatim>\<open>str\<close> or \<^verbatim>\<open>Path\<close> given to \<^verbatim>\<open>Path(...)\<close>.\<close>

fun pathlike_text :: "pyval \<Rightarrow> string" where
  "pathlike_text (PStr s) = s"
| "pathlike_text (PPath p) = p"
| "pathlike_text v = []"

definition establish_pwd_rootpath ::
  "environment \<Rightarrow> pydict \<times> session \<Rightarrow> pydict \<times> session" where
  "establish_pwd_rootpath env st =
     (case st of (self, ses) \<Rightarrow>
        (let pwd = cwd env;
             self1 = setattr self ''_pwd'' (PPath (path_str pwd));
             self2 = setattr self1 ''_rootpath'' (PPath (path_str pwd));
             casepath = getattr self2 ''casepath''
         in if truthy casepath \<and> (isinstance casepath T_str \<or> isinstance casepath T_Path)
            then (setattr self2 ''_rootpath''
                    (PPath (path_str (absolute pwd (Path_of (pathlike_text casepath))))), ses)
            else if inside_rms ses \<or> INSIDE_RMS env
            then (setattr self2 ''_rootpath''
                    (PPath (path_str (resolve env (absolute pwd (truediv pwd ''../../.''))))),
                  ses \<lparr> inside_rms := True \<rparr>)
            else (self2, ses)))"

text \<open>
  The settings file named by FMU_DATAIO_CONFIG, in \<^verbatim>\<open>__post_init__\<close>: a loaded value
  that is truthy overrides the settings of the instance, key by key.
\<close>

definition settings_from_env :: "environment \<Rightarrow> pydict \<Rightarrow> error + pydict" where
  "settings_from_env env self =
     (case settings_env env of
        None \<Rightarrow> Inr self
      | Some None \<Rightarrow> Inl (External ''some_config_from_env'')
      | Some (Some external_input) \<Rightarrow>
          if truthy external_input
          then (case external_input of
                  PDict items \<Rightarrow>
                    apply_settings (public_annotations ExportData_annotations) self items
                | _ \<Rightarrow> Inl AttributeError_items)
          else Inr self)"

definition config_from_env :: "environment \<Rightarrow> pydict \<Rightarrow> error + pydict" where
  "config_from_env env self =
     (case global_env env of
        None \<Rightarrow> Inr self
      | Some None \<Rightarrow> Inl (External ''some_config_from_env'')
      | Some (Some cfg) \<Rightarrow> Inr (setattr self ''config'' (if truthy cfg then cfg else PDict [])))"

definition post_init ::
  "externals \<Rightarrow> environment \<Rightarrow> pydict \<times> session \<Rightarrow> error + (pydict \<times> session)" where
  "post_init X env st =
     (case st of (self0, ses0) \<Rightarrow>
        (let ses1 = (if getattr self0 ''verbosity'' \<noteq> PStr ''DEPRECATED''
                     then warn UserWarning_verbosity ses0 else ses0)
         in case fmucontext_get X self0 of
              Inl e \<Rightarrow> Inl e
            | Inr self1 \<Rightarrow>
                (let self2 = setattr self1 ''vertical_domain'' (PDict [(''depth'', PStr ''msl'')])
                 in case settings_from_env env self2 of
                      Inl e \<Rightarrow> Inl e
                    | Inr self3 \<Rightarrow>
                        (case config_from_env env self3 of
                           Inl e \<Rightarrow> Inl e
                         | Inr self4 \<Rightarrow>
                             (case validate_content_key X self4 of
                                Inl e \<Rightarrow> Inl e
                              | Inr self5 \<Rightarrow>
                                  (case update_globalconfig_from_settings self5 of
                                     Inl e \<Rightarrow> Inl e
                                   | Inr self6 \<Rightarrow>
                                       (case establish_pwd_rootpath env
                                               (check_config_validity X self6, ses1) of
                                          (self7, ses2) \<Rightarrow>
                                            Inr (self7,
                                                 show_deprecations_or_notimplemented
                                                   self7 ses2))))))))"

text \<open>
  The generated \<^verbatim>\<open>__init__\<close>: a keyword that is no init field is a TypeError; the
  fields get the keyword arguments or their defaults, then \<^verbatim>\<open>__post_init__\<close> runs.
\<close>

definition ExportData_new ::
  "externals \<Rightarrow> environment \<Rightarrow> session \<Rightarrow> pydict \<Rightarrow> error + (pydict \<times> session)" where
  "ExportData_new X env ses kwargs =
     (case filter (\<lambda>(k, v). \<not> has_key ExportData_init_defaults k) kwargs of
        (k, v) # _ \<Rightarrow> Inl (TypeError_unexpected_keyword k)
      | [] \<Rightarrow>
          post_init X env
            (map (\<lambda>(k, d). (k, if has_key kwargs k then dict_get kwargs k else d))
                 ExportData_init_defaults
             @ ExportData_private_defaults, ses))"

text \<open>
  \<^verbatim>\<open>generate_metadata(self, obj, compute_md5=True, **kwargs)\<close> starts with the update
  of the settings from its keyword arguments \<open>kwargs\<close>, which never hold \<^verbatim>\<open>obj\<close> or
  \<^verbatim>\<open>compute_md5\<close>: these are parameters of their own. \<open>continue\<close> stands for the
  statements after the update, which build the metadata with modules that are not among
  the sources here.
\<close>

definition generate_metadata ::
  "externals \<Rightarrow> (pydict \<times> session \<Rightarrow> error + 'r) \<Rightarrow> pydict \<times> session \<Rightarrow> pydict \<Rightarrow> error + 'r" where
  "generate_metadata X continue st kwargs =
     (case update_check_settings X st kwargs of
        Inl e \<Rightarrow> Inl e
      | Inr st1 \<Rightarrow> continue st1)"

text \<open>
  \<^verbatim>\<open>export(self, obj, return_symlink=False, **kwargs)\<close> stores the table index and then
  calls \<^verbatim>\<open>self.generate_metadata(obj, compute_md5=False, **kwargs)\<close>. Keyword arguments of
  \<^verbatim>\<open>export\<close> that hold \<^verbatim>\<open>compute_md5\<close> give that parameter two values: the call is a
  TypeError, raised before \<^verbatim>\<open>generate_metadata\<close> has run a statement.
\<close>

definition export ::
  "externals \<Rightarrow> (pydict \<times> session \<Rightarrow> error + 'r) \<Rightarrow> pydict \<times> session \<Rightarrow> pydict \<Rightarrow> error + 'r" where
  "export X continue st kwargs =
     (case st of (self, ses) \<Rightarrow>
        (let self1 = setattr self ''table_index''
                       (if has_key kwargs ''table_index'' then dict_get kwargs ''table_index''
                        else getattr self ''table_index'')
         in if has_key kwargs ''compute_md5''
            then Inl (TypeError_multiple_values ''compute_md5'')
            else generate_metadata X continue (self1, ses) kwargs))"

text \<open>For the examples: the four contexts of the spec, given by name or as a member.\<close>

definition example_externals :: externals where
  "example_externals =
     \<lparr> allowed_content = example_content,
       FmuContext_get = (\<lambda>key.
          case key of
            PFmuContext c \<Rightarrow> Some c
          | PStr s \<Rightarrow>
              map_of [(''realization'', ''REALIZATION''), (''case'', ''CASE''),
                      (''case_symlink_realization'', ''CASE_SYMLINK_REALIZATION''),
                      (''preprocessed'', ''PREPROCESSED'')] s
          | _ \<Rightarrow> None),
       is_valid = (\<lambda>cfg. case cfg of PDict d \<Rightarrow> has_key d ''masterdata'' | _ \<Rightarrow> False),
       roundtrip = (\<lambda>cfg. cfg) \<rparr>"

definition example_environment :: "pyval option option \<Rightarrow> environment" where
  "example_environment settings =
     \<lparr> settings_env = settings, global_env = None,
       cwd = Path_of ''/scratch/nn/case/realization-44/iter-2'',
       INSIDE_RMS = False, resolve = (\<lambda>p. p) \<rparr>"

definition new_session :: session where
  "new_session = \<lparr> inside_rms = False, warnings = [] \<rparr>"

text \<open>An instance built with a configuration, for the examples.\<close>

definition example_instance :: "pydict \<times> session" where
  "example_instance =
     (case ExportData_new example_externals (example_environment None) new_session
             [(''config'', PDict [(''masterdata'', PDict [])]), (''content'', PStr ''depth'')] of
        Inr st \<Rightarrow> st
      | Inl e \<Rightarrow> ([], new_session))"


text \<open>Whether the settings file named by FMU_DATAIO_CONFIG gives a value for a key.\<close>

definition settings_file_sets :: "environment \<Rightarrow> string \<Rightarrow> bool" where
  "settings_file_sets env key =
     (case settings_env env of
        Some (Some (PDict items)) \<Rightarrow> has_key items key
      | _ \<Rightarrow> False)"

definition example_settings_file :: pyval where
  "example_settings_file = PDict [(''vertical_domain'', PDict [(''time'', PStr ''msl'')])]"

section \<open>dataio.py: InitializeCase\<close>

text \<open>
  The files the case initializer sees: the directories, and the metadata files with what
  was written to them. A path is known by its text.
\<close>

record filesystem =
  directories :: "string list"
  files :: "(string \<times> pydict) list"

definition path_exists :: "filesystem \<Rightarrow> Path \<Rightarrow> bool" where
  "path_exists fs p = (path_str p \<in> set (directories fs) \<or> has_key (files fs) (path_str p))"

text \<open>
  \<^verbatim>\<open>p.mkdir(parents=True, exist_ok=True)\<close>: the directory and the ancestors it lacks
  are made; it raises (None) when one of them is a file.
\<close>

definition lineage :: "Path \<Rightarrow> string list" where
  "lineage p =
     map (\<lambda>n. path_str \<lparr> path_root = path_root p, path_parts = take n (path_parts p) \<rparr>)
         [1..<Suc (length (path_parts p))]"

definition mkdir_parents :: "filesystem \<Rightarrow> Path \<Rightarrow> filesystem option" where
  "mkdir_parents fs p =
     (if list_ex (has_key (files fs)) (lineage p) then None
      else Some (fs \<lparr> directories :=
                        directories fs
                        @ filter (\<lambda>d. d \<notin> set (directories fs)) (lineage p) \<rparr>))"

text \<open>
  Modelled from the spec: \<^verbatim>\<open>export_metadata_file\<close> (in \<^verbatim>\<open>_utils\<close>, not among the
  sources here) persists the document at the path of the metadata file.
\<close>

definition export_metadata_file :: "filesystem \<Rightarrow> Path \<Rightarrow> pydict \<Rightarrow> filesystem" where
  "export_metadata_file fs metafile metadata =
     fs \<lparr> files := AList.update (path_str metafile) metadata (files fs) \<rparr>"

text \<open>
  What \<^verbatim>\<open>InitializeCase\<close> calls in modules that are not among the sources here: whether
  \<^verbatim>\<open>GlobalConfiguration.model_validate\<close> accepts the configuration; the case document
  that \<^verbatim>\<open>CaseSchema(...).model_dump(...)\<close> and \<^verbatim>\<open>drop_nones\<close> give for the
  configuration, case name, uuid, user and description (None when the construction
  raises); and \<^verbatim>\<open>uuid.uuid4()\<close>, whose n-th draw in the process is \<open>uuid4 n\<close>.
\<close>

record case_externals =
  global_configuration_valid :: "pyval \<Rightarrow> bool"
  case_schema_dump :: "pyval \<Rightarrow> string \<Rightarrow> string \<Rightarrow> string \<Rightarrow> pyval \<Rightarrow> pydict option"
  uuid4 :: "nat \<Rightarrow> string"

record InitializeCase =
  case_config :: pyval
  rootfolder :: string
  casename :: string
  caseuser :: string
  case_description :: pyval
  case_metadata :: pydict
  case_metafile :: Path
  case_pwd :: Path
  case_casepath :: Path

text \<open>What goes on around the instance: the files, the warnings given and the uuids drawn.\<close>

record world =
  filesystem :: filesystem
  emitted :: "warning list"
  draws :: nat

text \<open>The constructor with its \<^verbatim>\<open>__post_init__\<close>.\<close>

definition InitializeCase_new ::
  "case_externals \<Rightarrow> Path \<Rightarrow> pyval \<Rightarrow> string \<Rightarrow> string \<Rightarrow> string \<Rightarrow> pyval
   \<Rightarrow> error + InitializeCase" where
  "InitializeCase_new X pwd cfg root name user descr =
     (let casepath = Path_of root;
          self = \<lparr> case_config = cfg, rootfolder = root, casename = name, caseuser = user,
                   case_description = descr, case_metadata = [],
                   case_metafile = truediv casepath ''share/metadata/fmu_case.yml'',
                   case_pwd = pwd, case_casepath = casepath \<rparr>
      in if global_configuration_valid X cfg then Inr self
         else Inl PydanticValidationError)"

text \<open>
  \<^verbatim>\<open>_establish_metadata_files\<close>: makes the directory of the metadata file when it is
  missing, and tells whether the metadata file is still to be made.
\<close>

definition establish_metadata_files :: "InitializeCase \<Rightarrow> world \<Rightarrow> error + (bool \<times> world)" where
  "establish_metadata_files self w =
     (let parent = path_parent (case_metafile self) in
      if \<not> path_exists (filesystem w) parent
      then (case mkdir_parents (filesystem w) parent of
              None \<Rightarrow> Inl (External ''mkdir'')
            | Some fs \<Rightarrow> Inr (\<not> path_exists fs (case_metafile self), w \<lparr> filesystem := fs \<rparr>))
      else Inr (\<not> path_exists (filesystem w) (case_metafile self), w))"

definition InitializeCase_generate_metadata ::
  "case_externals \<Rightarrow> InitializeCase \<times> world \<Rightarrow> error + (pydict \<times> InitializeCase \<times> world)" where
  "InitializeCase_generate_metadata X st =
     (case st of (self, w) \<Rightarrow>
        (case establish_metadata_files self w of
           Inl e \<Rightarrow> Inl e
         | Inr (fresh, w1) \<Rightarrow>
             if \<not> fresh
             then Inr ([], self,
                       w1 \<lparr> emitted := emitted w1 @ [UserWarning_case_metadata_exists] \<rparr>)
             else (case case_schema_dump X (case_config self) (casename self)
                         (uuid4 X (draws w1)) (caseuser self) (case_description self) of
                     None \<Rightarrow> Inl (External ''CaseSchema'')
                   | Some meta \<Rightarrow>
                       Inr (meta, self \<lparr> case_metadata := meta \<rparr>,
                            w1 \<lparr> draws := Suc (draws w1) \<rparr>))))"

text \<open>\<^verbatim>\<open>export\<close> writes the file when \<^verbatim>\<open>generate_metadata\<close> gave a document that is
  not empty, and returns the path of the metadata file.\<close>

definition InitializeCase_export ::
  "case_externals \<Rightarrow> InitializeCase \<times> world \<Rightarrow> error + (string \<times> InitializeCase \<times> world)" where
  "InitializeCase_export X st =
     (case InitializeCase_generate_metadata X st of
        Inl e \<Rightarrow> Inl e
      | Inr (meta, self, w) \<Rightarrow>
          if meta \<noteq> []
          then Inr (path_str (case_metafile self), self,
                    w \<lparr> filesystem :=
                          export_metadata_file (filesystem w) (case_metafile self)
                            (case_metadata self) \<rparr>)
          else Inr (path_str (case_metafile self), self, w))"

text \<open>
  Modelled from the spec: the case document for the examples, with the parts the spec
  lists for Case Metadata: the case (name, generated uuid, user), the masterdata and the
  model of the configuration. The draws of \<^verbatim>\<open>uuid4\<close> are told apart by their number.
\<close>

definition example_case_externals :: case_externals where
  "example_case_externals =
     \<lparr> global_configuration_valid = (\<lambda>cfg. case cfg of
          PDict d \<Rightarrow> has_key d ''masterdata'' \<and> has_key d ''model'' | _ \<Rightarrow> False),
       case_schema_dump = (\<lambda>cfg name uuid user descr.
          case cfg of
            PDict d \<Rightarrow>
              Some [(''fmu'', PDict [(''case'', PDict [(''name'', PStr name),
                                                      (''uuid'', PStr uuid),
                                                      (''user'', PDict [(''id'', PStr user)])]),
                                    (''model'', dict_get d ''model'')]),
                    (''masterdata'', dict_get d ''masterdata'')]
          | _ \<Rightarrow> None),
       uuid4 = (\<lambda>n. ''15ce3b84-766f-4c93-9050-b154861f910'' @ [char_of (48 + n mod 10)]) \<rparr>"

definition example_case :: InitializeCase where
  "example_case =
     projr (InitializeCase_new example_case_externals (Path_of ''/scratch/nn'')
              (PDict [(''masterdata'', PDict [(''smda'', PDict [])]),
                      (''model'', PDict [(''name'', PStr ''Drogon'')])])
              ''/scratch/nn/case'' ''MyCaseName'' ''peesv'' PNone)"

definition empty_world :: world where
  "empty_world =
     \<lparr> filesystem = \<lparr> directories = [''/'', ''/scratch'', ''/scratch/nn''], files = [] \<rparr>,
       emitted = [], draws = 0 \<rparr>"

text \<open>Two calls of \<^verbatim>\<open>generate_metadata\<close> in a row, and a first call of \<^verbatim>\<open>export\<close>.\<close>

definition first_generate :: "error + (pydict \<times> InitializeCase \<times> world)" where
  "first_generate =
     InitializeCase_generate_metadata example_case_externals (example_case, empty_world)"

definition second_generate :: "error + (pydict \<times> InitializeCase \<times> world)" where
  "second_generate =
     InitializeCase_generate_metadata example_case_externals (snd (projr first_generate))"

definition first_export :: "error + (string \<times> InitializeCase \<times> world)" where
  "first_export = InitializeCase_export example_case_externals (example_case, empty_world)"

section \<open>dataio.py: the file name of aggregated data\<close>

text \<open>
  The settings of \<^verbatim>\<open>AggregatedData\<close> that \<^verbatim>\<open>_construct_filename\<close> reads, and what it
  reads of the template, the first source document: \<^verbatim>\<open>fmu.realization.name\<close>,
  \<^verbatim>\<open>file.relative_path\<close> and \<^verbatim>\<open>file.absolute_path\<close>, which are strings in a document
  of the schema and None here when the key is missing.
\<close>

record AggregatedData =
  aggr_casepath :: pyval
  aggr_name :: string
  aggr_operation :: string
  aggr_tagname :: string

record template =
  tmpl_realiname :: "string option"
  tmpl_relpath :: "string option"
  tmpl_abspath :: "string option"

text \<open>
  The override of the case path: it must exist, and it replaces the absolute path of the
  template by the relative path under it.
\<close>

definition casepath_override ::
  "filesystem \<Rightarrow> pyval \<Rightarrow> string \<Rightarrow> string option \<Rightarrow> error + string option" where
  "casepath_override fs cp relpath abspath =
     (if truthy cp
      then (if isinstance cp T_str \<or> isinstance cp T_Path
            then (let casepath = Path_of (pathlike_text cp) in
                  if \<not> path_exists fs casepath then Inl ValueError_casepath_not_exist
                  else Inr (Some (path_str (truediv casepath relpath))))
            else Inl TypeError_not_pathlike)
      else Inr abspath)"

text \<open>The name of the file without its suffix: the given name, or stem and operation;
  then the tag.\<close>

definition aggregated_usename :: "AggregatedData \<Rightarrow> string \<Rightarrow> string" where
  "aggregated_usename self stem =
     (let usename0 = stem @ ''--'' @ aggr_operation self;
          usename1 = (if aggr_name self = [] then usename0 else aggr_name self)
      in if aggr_tagname self \<noteq> [] then usename1 @ ''--'' @ aggr_tagname self
         else usename1)"

definition construct_filename ::
  "filesystem \<Rightarrow> AggregatedData \<Rightarrow> template \<Rightarrow> error + (Path \<times> Path option \<times> warning list)" where
  "construct_filename fs self tmpl =
     (case tmpl_realiname tmpl of
        None \<Rightarrow> Inl (KeyError_missing ''name'')
      | Some realiname \<Rightarrow>
          (case tmpl_relpath tmpl of
             None \<Rightarrow> Inl (KeyError_missing ''relative_path'')
           | Some relpath0 \<Rightarrow>
               (let abspath0 = (case tmpl_abspath tmpl of
                                  Some a \<Rightarrow> if a \<noteq> [] then Some a else None
                                | None \<Rightarrow> None)
                in case casepath_override fs (aggr_casepath self) relpath0 abspath0 of
                     Inl e \<Rightarrow> Inl e
                   | Inr abspath1 \<Rightarrow>
                       (let relpath = Path_of (replace relpath0 (realiname @ ''/'') []);
                            abspath = (case abspath1 of
                                         Some a \<Rightarrow>
                                           if a \<noteq> []
                                           then Some (Path_of (replace a (realiname @ ''/'') []))
                                           else None
                                       | None \<Rightarrow> None);
                            sfx = path_suffix relpath;
                            stem = path_stem relpath;
                            ws = (if aggr_name self = [] then [UserWarning_name_not_given]
                                  else []);
                            usename = aggregated_usename self stem
                        in case with_suffix (truediv (path_parent relpath) usename) sfx of
                             Inl e \<Rightarrow> Inl e
                           | Inr relname \<Rightarrow>
                               (case abspath of
                                  None \<Rightarrow> Inr (relname, None, ws)
                                | Some ap \<Rightarrow>
                                    (case with_suffix (truediv (path_parent ap) usename) sfx of
                                       Inl e \<Rightarrow> Inl e
                                     | Inr absname \<Rightarrow> Inr (relname, Some absname, ws)))))))"

text \<open>
  The shapes of names in the statement about the file name: a component of a path as
  \<^verbatim>\<open>pathlib\<close> keeps it, and a name without slash and dot.
\<close>

definition clean_component :: "string \<Rightarrow> bool" where
  "clean_component c = (c \<noteq> [] \<and> CHR ''/'' \<notin> set c \<and> c \<noteq> ''.'')"

definition dotless :: "string \<Rightarrow> bool" where
  "dotless s = (CHR ''/'' \<notin> set s \<and> CHR ''.'' \<notin> set s)"

definition plain_name :: "string \<Rightarrow> bool" where
  "plain_name s = (s \<noteq> [] \<and> dotless s)"

text \<open>The example of the docstring: the template of realization 33, and two settings.\<close>

definition example_template :: template where
  "example_template =
     \<lparr> tmpl_realiname = Some ''realization-33'',
       tmpl_relpath = Some ''realization-33/iter-0/share/results/maps/x.gri'',
       tmpl_abspath = Some ''/scratch/f/case/realization-33/iter-0/share/results/maps/x.gri'' \<rparr>"

text \<open>The second example of the docstring: the template has no absolute path.\<close>

definition example_cloud_template :: template where
  "example_cloud_template =
     \<lparr> tmpl_realiname = Some ''realization-33'',
       tmpl_relpath = Some ''realization-33/iter-0/share/results/maps/x.gri'',
       tmpl_abspath = None \<rparr>"

definition example_aggregated :: "pyval \<Rightarrow> string \<Rightarrow> string \<Rightarrow> AggregatedData" where
  "example_aggregated cp nm tag =
     \<lparr> aggr_casepath = cp, aggr_name = nm, aggr_operation = ''mean'', aggr_tagname = tag \<rparr>"

definition example_filesystem :: filesystem where
  "example_filesystem =
     \<lparr> directories = [''/'', ''/scratch'', ''/scratch/f'', ''/scratch/f/case''], files = [] \<rparr>"

section \<open>dataio.py: the aggregation id\<close>

text \<open>
  \<^verbatim>\<open>AggregatedData._generate_aggr_uuid\<close> is
  \<^verbatim>\<open>uuid_from_string("".join(sorted(uuids)))\<close>. \<^verbatim>\<open>uuid_from_string\<close> lives in
  \<^verbatim>\<open>_utils\<close> and is a parameter here. Python orders strings by code point, which is
  the order of their UTF-8 bytes, the lexicographic order of \<open>string\<close>.
\<close>

definition generate_aggr_uuid :: "(string \<Rightarrow> string) \<Rightarrow> string list \<Rightarrow> string" where
  "generate_aggr_uuid uuid_from_string uuids = uuid_from_string (concat (sort uuids))"

text \<open>
  The first statements of \<^verbatim>\<open>_generate_aggrd_metadata\<close>: an id that is None is derived
  from the uuids, any other id must be a string.
\<close>

definition derive_aggregation_id ::
  "(string \<Rightarrow> string) \<Rightarrow> pyval \<Rightarrow> string list \<Rightarrow> error + string" where
  "derive_aggregation_id uuid_from_string aggregation_id uuids =
     (case aggregation_id of
        PNone \<Rightarrow> Inr (generate_aggr_uuid uuid_from_string uuids)
      | PStr s \<Rightarrow> Inr s
      | _ \<Rightarrow> Inl ValueError_aggregation_id_not_str)"

section \<open>Properties\<close>

subsection \<open>Attributes\<close>

lemma getattr_setattr [simp]:
  "getattr (setattr self k v) k' = (if k' = k then v else getattr self k')"
  by (simp add: getattr_def setattr_def dict_get_def update_conv')

subsection \<open>Aggregation and realization\<close>

lemma validate_Aggregation_truthy:
  assumes "validate_Aggregation V v = Some a"
  shows "truthy v"
  using assms
  by (cases v) (auto simp: validate_Aggregation_def required_def split: Option.bind_splits option.splits)

lemma validate_Realization_truthy:
  assumes "validate_Realization V v = Some a"
  shows "truthy v"
  using assms
  by (cases v) (auto simp: validate_Realization_def required_def split: Option.bind_splits option.splits)

lemma optional_model_SomeD:
  assumes "optional_model validate d k = Some (Some a)"
  shows "\<exists>v. map_of d k = Some v \<and> v \<noteq> PNone \<and> validate v = Some a"
  using assms
  by (auto simp: optional_model_def split: option.splits pyval.splits)

lemma validate_FMUAttributes_fields:
  assumes "validate_FMUAttributes V blk = Some f"
  shows "\<exists>values. blk = PDict values
           \<and> dependencies_aggregation_realization values = Inr values
           \<and> optional_model (validate_Aggregation V) values ''aggregation'' = Some (fmu_aggregation f)
           \<and> optional_model (validate_Realization V) values ''realization'' = Some (fmu_realization f)"
  using assms
  by (cases blk)
     (auto simp: validate_FMUAttributes_def dependencies_aggregation_realization_def Let_def
           split: Option.bind_splits sum.splits if_splits)

lemma validate_FMUAttributes_not_both:
  assumes "validate_FMUAttributes V blk = Some f"
  shows "fmu_aggregation f = None \<or> fmu_realization f = None"
proof (rule ccontr)
  assume "\<not> (fmu_aggregation f = None \<or> fmu_realization f = None)"
  then obtain a r where a: "fmu_aggregation f = Some a" and r: "fmu_realization f = Some r"
    by auto
  from validate_FMUAttributes_fields [OF assms] obtain d where
    dep: "dependencies_aggregation_realization d = Inr d" and
    oa: "optional_model (validate_Aggregation V) d ''aggregation'' = Some (fmu_aggregation f)" and
    orr: "optional_model (validate_Realization V) d ''realization'' = Some (fmu_realization f)"
    by blast
  from optional_model_SomeD [OF oa [unfolded a]] obtain va where
    va: "map_of d ''aggregation'' = Some va" "validate_Aggregation V va = Some a" by blast
  from optional_model_SomeD [OF orr [unfolded r]] obtain vr where
    vr: "map_of d ''realization'' = Some vr" "validate_Realization V vr = Some r" by blast
  have "truthy (dict_get d ''aggregation'')" "truthy (dict_get d ''realization'')"
    using va vr validate_Aggregation_truthy validate_Realization_truthy
    by (auto simp: dict_get_def)
  with dep show False
    by (simp add: dependencies_aggregation_realization_def)
qed

lemma falsy_not_Aggregation:
  assumes "\<not> truthy v"
  shows "validate_Aggregation V v = None"
  using validate_Aggregation_truthy [of V v] assms by (cases "validate_Aggregation V v") auto

lemma falsy_not_Realization:
  assumes "\<not> truthy v"
  shows "validate_Realization V v = None"
  using validate_Realization_truthy [of V v] assms by (cases "validate_Realization V v") auto

lemma validate_FMUAttributes_both_present:
  assumes "map_of values ''aggregation'' = Some a" "a \<noteq> PNone"
    and "map_of values ''realization'' = Some r" "r \<noteq> PNone"
  shows "validate_FMUAttributes V (PDict values) = None"
proof (cases "validate_FMUAttributes V (PDict values)")
  case None then show ?thesis .
next
  case (Some f)
  from validate_FMUAttributes_fields [OF Some] have
    oa: "optional_model (validate_Aggregation V) values ''aggregation'' = Some (fmu_aggregation f)" and
    orr: "optional_model (validate_Realization V) values ''realization'' = Some (fmu_realization f)"
    by auto
  from oa assms(1,2) have "fmu_aggregation f \<noteq> None"
    by (cases a; cases "fmu_aggregation f") (auto simp: optional_model_def)
  moreover from orr assms(3,4) have "fmu_realization f \<noteq> None"
    by (cases r; cases "fmu_realization f") (auto simp: optional_model_def)
  ultimately show ?thesis using validate_FMUAttributes_not_both [OF Some] by auto
qed

lemma validate_Root_union:
  assumes "validate_Root V repr doc = Some root"
  shows "validate_union V repr doc = Some root \<and> check_class_data_spec root = Inr root"
  using assms
  by (auto simp: validate_Root_def check_class_data_spec_def split: option.splits if_splits)

lemma validate_union_object_parts:
  assumes "validate_union V repr (PDict d) = Some (RootObject m)"
  shows "required_model (validate_FMUAttributes V) d ''fmu'' = Some (fmu m)"
    and "required_model (validate_File V repr) d ''file'' = Some (file_block m)"
    and "required_model (any_data V) d ''data'' = Some (data m)"
    and "\<exists>c. map_of d ''class'' = Some (PStr c) \<and> map_of object_classes c = Some (metadata_class m)"
  using assms
  by (auto simp: validate_union_def validate_ObjectMetadata_def
           split: option.splits pyval.splits if_splits Option.bind_splits)

lemma validate_Root_object_parts:
  assumes "validate_Root V repr (PDict d) = Some (RootObject m)"
  shows "required_model (validate_FMUAttributes V) d ''fmu'' = Some (fmu m)"
    and "required_model (validate_File V repr) d ''file'' = Some (file_block m)"
  using validate_union_object_parts [of V repr d m] validate_Root_union [OF assms]
  by auto

lemma validate_Root_not_PDict:
  assumes "validate_Root V repr doc = Some root"
  shows "\<exists>d. doc = PDict d"
  using assms
  by (cases doc) (auto simp: validate_Root_def validate_union_def split: option.splits)

text \<open>
  C1. An Object Metadata document that schema validation accepts never has both
  \<open>fmu.aggregation\<close> and \<open>fmu.realization\<close> set, and an fmu block in which both are
  present (not None) fails validation, alone and inside a document: if both are truthy
  the validator raises, and a value that is not None but falsy is no valid Aggregation
  or Realization.
\<close>

theorem aggregation_realization_never_both:
  "(validate_Root V repr doc = Some (RootObject m)
      \<longrightarrow> fmu_aggregation (fmu m) = None \<or> fmu_realization (fmu m) = None)
   \<and> (validate_FMUAttributes V blk = Some f
      \<longrightarrow> fmu_aggregation f = None \<or> fmu_realization f = None)
   \<and> (map_of d ''aggregation'' = Some a \<and> a \<noteq> PNone
       \<and> map_of d ''realization'' = Some r \<and> r \<noteq> PNone
      \<longrightarrow> validate_FMUAttributes V (PDict d) = None
          \<and> (map_of doc' ''fmu'' = Some (PDict d)
               \<longrightarrow> validate_Root V repr (PDict doc') \<noteq> Some (RootObject m)))"
proof (intro conjI impI)
  assume ok: "validate_Root V repr doc = Some (RootObject m)"
  from validate_Root_not_PDict [OF ok] obtain dd where dd: "doc = PDict dd" by blast
  from validate_Root_object_parts(1) [OF ok [unfolded dd]]
  obtain b where "validate_FMUAttributes V b = Some (fmu m)"
    by (auto simp: required_model_def split: option.splits)
  then show "fmu_aggregation (fmu m) = None \<or> fmu_realization (fmu m) = None"
    by (rule validate_FMUAttributes_not_both)
next
  assume "validate_FMUAttributes V blk = Some f"
  then show "fmu_aggregation f = None \<or> fmu_realization f = None"
    by (rule validate_FMUAttributes_not_both)
next
  assume h: "map_of d ''aggregation'' = Some a \<and> a \<noteq> PNone
       \<and> map_of d ''realization'' = Some r \<and> r \<noteq> PNone"
  then show none: "validate_FMUAttributes V (PDict d) = None"
    using validate_FMUAttributes_both_present by blast
  assume f: "map_of doc' ''fmu'' = Some (PDict d)"
  show "validate_Root V repr (PDict doc') \<noteq> Some (RootObject m)"
  proof
    assume "validate_Root V repr (PDict doc') = Some (RootObject m)"
    from validate_Root_object_parts(1) [OF this] f none show False
      by (simp add: required_model_def)
  qed
qed

theorem aggregation_realization_never_both_witness:
  "validate_Root example_pydantic example_repr
      (example_object ''polygons'' (example_fmu @ [(''realization'', example_realization)])
         [(''content'', PStr ''depth'')] example_file) \<noteq> None
   \<and> validate_FMUAttributes example_pydantic
       (PDict (example_fmu @ [(''aggregation'', example_aggregation)])) \<noteq> None
   \<and> validate_FMUAttributes example_pydantic
       (PDict (example_fmu @ [(''realization'', example_realization),
                              (''aggregation'', example_aggregation)])) = None"
proof -
  have 1: "validate_Root example_pydantic example_repr
      (example_object ''polygons'' (example_fmu @ [(''realization'', example_realization)])
         [(''content'', PStr ''depth'')] example_file) \<noteq> None"
    by code_simp
  have 2: "validate_FMUAttributes example_pydantic
       (PDict (example_fmu @ [(''aggregation'', example_aggregation)])) \<noteq> None"
    by code_simp
  have 3: "map_of (example_fmu @ [(''realization'', example_realization),
                              (''aggregation'', example_aggregation)]) ''aggregation''
            = Some example_aggregation \<and> example_aggregation \<noteq> PNone
         \<and> map_of (example_fmu @ [(''realization'', example_realization),
                              (''aggregation'', example_aggregation)]) ''realization''
            = Some example_realization \<and> example_realization \<noteq> PNone"
    by (simp add: example_fmu_def example_aggregation_def example_realization_def)
  from aggregation_realization_never_both
         [of example_pydantic example_repr PNone undefined PNone undefined
             "example_fmu @ [(''realization'', example_realization),
                              (''aggregation'', example_aggregation)]"
             example_aggregation example_realization "[]"] 3
  have "validate_FMUAttributes example_pydantic
       (PDict (example_fmu @ [(''realization'', example_realization),
                              (''aggregation'', example_aggregation)])) = None"
    by blast
  with 1 2 show ?thesis by blast
qed

subsection \<open>The content validator\<close>

text \<open>
  C2, as stated, fails: in the example taxonomy "fluid_contact" is a content of the
  taxonomy, and given as a plain string it is rejected because it needs extra fields.
\<close>

theorem content_requiring_input_rejected:
  "''fluid_contact'' \<in> set (model_fields example_content)
   \<and> check_content example_content (PStr ''fluid_contact'')
       = Inl (ValidationError_requires_additional_input ''fluid_contact'')"
  by code_simp

text \<open>
  C2, amended. A content string of the taxonomy that needs no additional input is
  returned as the pair of itself and None; one that needs additional input raises a
  ValidationError.
\<close>

theorem content_string_in_taxonomy:
  "content \<in> set (model_fields AC)
     \<longrightarrow> (if requires_additional_input AC content
          then check_content AC (PStr content)
                 = Inl (ValidationError_requires_additional_input content)
          else check_content AC (PStr content) = Inr (content, PNone))"
  by (simp add: check_content_def resolve_content_def)

theorem content_string_in_taxonomy_witness:
  "check_content example_content (PStr ''depth'') = Inr (''depth'', PNone)"
proof -
  have "''depth'' \<in> set (model_fields example_content)"
       "\<not> requires_additional_input example_content ''depth''"
    by code_simp+
  with content_string_in_taxonomy [of "''depth''" example_content] show ?thesis
    by simp
qed

text \<open>
  C3, as stated, fails twice. The string "unset" is not a name of the example taxonomy,
  yet it is accepted, since the check lets the sentinel through. A dictionary whose first
  key is not in the taxonomy and whose value is not a dictionary raises the ValueError of
  the format check, which comes before the taxonomy check, and not a ValidationError.
\<close>

theorem invalid_content_not_always_validation_error:
  "''unset'' \<notin> set (model_fields example_content)
   \<and> check_content example_content (PStr ''unset'') = Inr (''unset'', PNone)
   \<and> ''bogus'' \<notin> set (model_fields example_content)
   \<and> check_content example_content (PDict [(''bogus'', PInt 5)]) = Inl ValueError_content_format
   \<and> class_of ValueError_content_format \<noteq> ValidationError"
  by code_simp

text \<open>
  C3, amended. A name that is neither "unset" nor in the taxonomy raises a
  ValidationError when it is given as a string, and when it is the first key of a
  dictionary whose value for it is a dictionary. An absent declaration resolves to
  "unset" with no extra fields and no error.
\<close>

theorem invalid_content_raises:
  "(name \<noteq> ''unset'' \<and> name \<notin> set (model_fields AC)
      \<longrightarrow> (\<exists>e. check_content AC (PStr name) = Inl e \<and> class_of e = ValidationError)
          \<and> (\<exists>e. check_content AC (PDict ((name, PDict extra) # others)) = Inl e
                  \<and> class_of e = ValidationError))
   \<and> check_content AC PNone = Inr (''unset'', PNone)"
  by (auto simp: check_content_def resolve_content_def)

theorem invalid_content_raises_witness:
  "check_content example_content (PStr ''bogus'') = Inl (ValidationError_invalid_content ''bogus'')
   \<and> check_content example_content (PDict [(''bogus'', PDict [(''a'', PInt 1)])])
       = Inl (ValidationError_invalid_content ''bogus'')
   \<and> check_content example_content PNone = Inr (''unset'', PNone)"
proof -
  have h: "''bogus'' \<noteq> ''unset'' \<and> ''bogus'' \<notin> set (model_fields example_content)"
    by code_simp
  have 1: "\<not> requires_additional_input example_content ''bogus''"
    by code_simp
  from invalid_content_raises [of "''bogus''" example_content "[(''a'', PInt 1)]" "[]"] h
  obtain e1 e2 where
    e1: "check_content example_content (PStr ''bogus'') = Inl e1" and
    e2: "check_content example_content (PDict [(''bogus'', PDict [(''a'', PInt 1)])]) = Inl e2" and
    n: "check_content example_content PNone = Inr (''unset'', PNone)"
    by blast
  from e1 1 h have "e1 = ValidationError_invalid_content ''bogus''"
    by (simp add: check_content_def resolve_content_def)
  moreover from e2 h have "e2 = ValidationError_invalid_content ''bogus''"
    by (simp add: check_content_def resolve_content_def)
  ultimately show ?thesis using e1 e2 n by simp
qed

subsection \<open>The aggregation id\<close>

lemma sort_mset_cong:
  fixes xs ys :: "string list"
  assumes "mset ys = mset xs"
  shows "sort ys = sort xs"
  using assms by (metis properties_for_sort sorted_sort mset_sort)

text \<open>
  C4. When no aggregation id is given, the derived id depends only on which realization
  uuids are given and how often, not on their order: any permutation of the list of
  uuids gives the same id. (Running the computation again on the same list gives the same
  id because the function is a function.)
\<close>

theorem aggregation_id_permutation_invariant:
  assumes "mset ys = mset xs"
  shows "derive_aggregation_id h PNone ys = derive_aggregation_id h PNone xs
         \<and> generate_aggr_uuid h ys = generate_aggr_uuid h xs"
  using sort_mset_cong [OF assms]
  by (simp add: derive_aggregation_id_def generate_aggr_uuid_def)

theorem aggregation_id_permutation_invariant_witness:
  "mset [''b1'', ''a2'', ''c3''] = mset [''c3'', ''b1'', ''a2'']
   \<and> derive_aggregation_id (\<lambda>s. s) PNone [''b1'', ''a2'', ''c3''] = Inr ''a2b1c3''
   \<and> derive_aggregation_id (\<lambda>s. s) PNone [''c3'', ''b1'', ''a2''] = Inr ''a2b1c3''"
proof -
  have m: "mset [''b1'', ''a2'', ''c3''] = mset [''c3'', ''b1'', ''a2'']"
    by simp
  have e: "derive_aggregation_id (\<lambda>s. s) PNone [''c3'', ''b1'', ''a2''] = Inr ''a2b1c3''"
    by (simp add: derive_aggregation_id_def generate_aggr_uuid_def)
  from aggregation_id_permutation_invariant [OF m, of "\<lambda>s. s"] e m
  show ?thesis by simp
qed

subsection \<open>The spec of tables and surfaces\<close>

lemma validate_union_case_class:
  assumes "validate_union V repr doc = Some (RootCase c)"
  shows "metadata_class c = class_case"
  using assms
  by (cases doc)
     (auto simp: validate_union_def validate_CaseMetadata_def
           split: option.splits pyval.splits if_splits Option.bind_splits)

lemma validate_union_hasattr_data:
  assumes "validate_union V repr doc = Some root"
    and "root_class root \<in> {class_table, class_surface}"
  shows "hasattr_data root"
  using assms validate_union_case_class [of V repr doc]
  by (cases root) auto

text \<open>
  C5. On a validated document whose class is table or surface, the after-validator of the
  root model raises when the \<open>spec\<close> of the data block is None and passes when it is
  set; a document of any other class passes it whatever its \<open>spec\<close>. So a document
  that the union of the two models accepts fails root validation exactly when its class
  is table or surface and its \<open>spec\<close> is None.
\<close>

theorem class_table_surface_requires_spec:
  "(root_class root \<in> {class_table, class_surface} \<and> hasattr_data root
      \<longrightarrow> (root_data_spec root = None
             \<longrightarrow> check_class_data_spec root = Inl ValueError_class_data_spec)
          \<and> (root_data_spec root \<noteq> None \<longrightarrow> check_class_data_spec root = Inr root))
   \<and> (root_class root \<notin> {class_table, class_surface}
      \<longrightarrow> check_class_data_spec root = Inr root)
   \<and> (validate_union V repr doc = Some root
      \<longrightarrow> (if root_class root \<in> {class_table, class_surface} \<and> root_data_spec root = None
           then validate_Root V repr doc = None
           else validate_Root V repr doc = Some root))"
proof (intro conjI impI)
  assume u: "validate_union V repr doc = Some root"
  show "if root_class root \<in> {class_table, class_surface} \<and> root_data_spec root = None
        then validate_Root V repr doc = None
        else validate_Root V repr doc = Some root"
    using u validate_union_hasattr_data [OF u]
    by (auto simp: validate_Root_def check_class_data_spec_def)
qed (auto simp: check_class_data_spec_def)

theorem class_table_surface_requires_spec_witness:
  "validate_Root example_pydantic example_repr
      (example_document ''surface'' [(''content'', PStr ''depth'')]) = None
   \<and> validate_Root example_pydantic example_repr
      (example_document ''table'' [(''content'', PStr ''depth''), (''spec'', PNone)]) = None
   \<and> validate_Root example_pydantic example_repr
      (example_document ''surface''
         [(''content'', PStr ''depth''), (''spec'', PDict [(''ncol'', PInt 3)])]) \<noteq> None
   \<and> validate_Root example_pydantic example_repr
      (example_document ''polygons'' [(''content'', PStr ''depth'')]) \<noteq> None"
proof -
  let ?V = example_pydantic and ?r = example_repr
  let ?d1 = "example_document ''surface'' [(''content'', PStr ''depth'')]"
  let ?r1 = "the (validate_union ?V ?r ?d1)"
  have "validate_union ?V ?r ?d1 \<noteq> None"
    by code_simp
  then have u1: "validate_union ?V ?r ?d1 = Some ?r1"
    by simp
  have c1: "root_class ?r1 = class_surface" "root_data_spec ?r1 = None"
    by code_simp+
  from class_table_surface_requires_spec [of ?r1 ?V ?r ?d1] u1 c1
  have 1: "validate_Root ?V ?r ?d1 = None" by simp
  have 2: "validate_Root ?V ?r
      (example_document ''table'' [(''content'', PStr ''depth''), (''spec'', PNone)]) = None"
    by code_simp
  have 3: "validate_Root ?V ?r
      (example_document ''surface''
         [(''content'', PStr ''depth''), (''spec'', PDict [(''ncol'', PInt 3)])]) \<noteq> None"
    by code_simp
  have 4: "validate_Root ?V ?r
      (example_document ''polygons'' [(''content'', PStr ''depth'')]) \<noteq> None"
    by code_simp
  from 1 2 3 4 show ?thesis by blast
qed

subsection \<open>The configuration is set at construction only\<close>

lemma validate_variable_error:
  assumes "validate_variable key v legals = Inl e"
  shows "e \<noteq> ValueError_config_outside_init"
  using assms
  by (auto simp: validate_variable_def split: option.splits if_splits)

lemma apply_settings_error:
  assumes "apply_settings legals self newsettings = Inl e"
  shows "e \<noteq> ValueError_config_outside_init"
  using assms
proof (induction newsettings arbitrary: self)
  case Nil
  then show ?case by simp
next
  case (Cons kv others)
  obtain k v where kv: "kv = (k, v)" by (cases kv)
  show ?case
  proof (cases "validate_variable k v legals")
    case (Inl e')
    with Cons.prems kv have "e = e'" by simp
    with validate_variable_error [OF Inl] show ?thesis by simp
  next
    case (Inr ok)
    with Cons.prems kv Cons.IH show ?thesis by simp
  qed
qed

lemma check_content_error:
  assumes "check_content AC proposed = Inl e"
  shows "e \<noteq> ValueError_config_outside_init"
  using assms
  by (auto simp: check_content_def resolve_content_def content_validate_def
           split: sum.splits pyval.splits list.splits if_splits prod.splits option.splits)

lemma validate_content_key_error:
  assumes "validate_content_key X self = Inl e"
  shows "e \<noteq> ValueError_config_outside_init"
  using assms check_content_error
  by (auto simp: validate_content_key_def split: sum.splits prod.splits)

lemma validate_fmucontext_key_error:
  assumes "validate_fmucontext_key X self = Inl e"
  shows "e \<noteq> ValueError_config_outside_init"
  using assms
  by (auto simp: validate_fmucontext_key_def fmucontext_get_def split: if_splits option.splits)

lemma update_check_settings_without_config:
  assumes "\<not> has_key newsettings ''config''"
  shows "update_check_settings X st newsettings \<noteq> Inl ValueError_config_outside_init"
proof
  assume a: "update_check_settings X st newsettings = Inl ValueError_config_outside_init"
  obtain self ses where st: "st = (self, ses)" by (cases st)
  from a assms st show False
    using apply_settings_error validate_content_key_error validate_fmucontext_key_error
    by (auto simp: update_check_settings_def Let_def split: sum.splits)
qed

text \<open>
  C6, as stated, fails for \<^verbatim>\<open>export\<close>: keyword arguments that hold "config" and
  "compute_md5" do not raise the ValueError. \<^verbatim>\<open>export\<close> passes them on next to its own
  \<^verbatim>\<open>compute_md5=False\<close>, which is a TypeError of that call, and the update of the
  settings is never reached.
\<close>

theorem export_config_with_compute_md5_is_type_error:
  "has_key [(''config'', PDict []), (''compute_md5'', PBool True)] ''config''
   \<and> export example_externals Inr example_instance
         [(''config'', PDict []), (''compute_md5'', PBool True)]
       = Inl (TypeError_multiple_values ''compute_md5'')
   \<and> class_of (TypeError_multiple_values ''compute_md5'') = TypeError
   \<and> class_of ValueError_config_outside_init = ValueError"
  by code_simp

text \<open>
  C6, amended. An update of the settings at call time that has the key "config" raises
  the ValueError of \<^verbatim>\<open>_update_check_settings\<close>, and so do \<^verbatim>\<open>generate_metadata\<close>, which
  begins with that update, and \<^verbatim>\<open>export\<close> when its keyword arguments do not hold
  "compute_md5"; when they do, \<^verbatim>\<open>export\<close> raises the TypeError of the doubled keyword
  before any update, with or without "config". An update without the key "config"
  never raises this ValueError, whatever else it raises. (The constructor takes "config"
  as a field.)
\<close>

theorem config_only_at_construction:
  "(has_key newsettings ''config''
      \<longrightarrow> update_check_settings X st newsettings = Inl ValueError_config_outside_init
          \<and> generate_metadata X continue st newsettings = Inl ValueError_config_outside_init
          \<and> (\<not> has_key newsettings ''compute_md5''
               \<longrightarrow> export X continue st newsettings = Inl ValueError_config_outside_init))
   \<and> (has_key newsettings ''compute_md5''
      \<longrightarrow> export X continue st newsettings = Inl (TypeError_multiple_values ''compute_md5''))
   \<and> (\<not> has_key newsettings ''config''
      \<longrightarrow> update_check_settings X st newsettings \<noteq> Inl ValueError_config_outside_init)"
proof (intro conjI impI)
  assume h: "has_key newsettings ''config''"
  then show u: "update_check_settings X st newsettings = Inl ValueError_config_outside_init"
    for st
    by (cases st) (simp add: update_check_settings_def Let_def)
  then show "generate_metadata X continue st newsettings = Inl ValueError_config_outside_init"
    by (simp add: generate_metadata_def)
  assume "\<not> has_key newsettings ''compute_md5''"
  with u show "export X continue st newsettings = Inl ValueError_config_outside_init"
    by (cases st) (simp add: export_def generate_metadata_def Let_def)
next
  assume "has_key newsettings ''compute_md5''"
  then show "export X continue st newsettings = Inl (TypeError_multiple_values ''compute_md5'')"
    by (cases st) (simp add: export_def Let_def)
next
  assume "\<not> has_key newsettings ''config''"
  then show "update_check_settings X st newsettings \<noteq> Inl ValueError_config_outside_init"
    by (rule update_check_settings_without_config)
qed

theorem config_only_at_construction_witness:
  "getattr (fst example_instance) ''config'' = PDict [(''masterdata'', PDict [])]
   \<and> update_check_settings example_externals example_instance
        [(''name'', PStr ''TopOne''), (''config'', PDict [])] = Inl ValueError_config_outside_init
   \<and> export example_externals Inr example_instance
        [(''name'', PStr ''TopOne''), (''config'', PDict [])] = Inl ValueError_config_outside_init
   \<and> export example_externals Inr example_instance
        [(''name'', PStr ''TopOne''), (''compute_md5'', PBool False)]
       = Inl (TypeError_multiple_values ''compute_md5'')
   \<and> update_check_settings example_externals example_instance [(''name'', PStr ''TopOne'')]
        \<noteq> Inl ValueError_config_outside_init
   \<and> getattr (fst (projr (update_check_settings example_externals example_instance
                             [(''name'', PStr ''TopOne'')]))) ''name'' = PStr ''TopOne''"
proof -
  have 1: "has_key [(''name'', PStr ''TopOne''), (''config'', PDict [])] ''config''"
    by (simp add: has_key_def)
  have 2: "\<not> has_key [(''name'', PStr ''TopOne'')] ''config''"
    by (simp add: has_key_def)
  have 3: "getattr (fst example_instance) ''config'' = PDict [(''masterdata'', PDict [])]"
    by code_simp
  have 4: "getattr (fst (projr (update_check_settings example_externals example_instance
                             [(''name'', PStr ''TopOne'')]))) ''name'' = PStr ''TopOne''"
    by code_simp
  have 5: "\<not> has_key [(''name'', PStr ''TopOne''), (''config'', PDict [])] ''compute_md5''"
    by (simp add: has_key_def)
  have 6: "has_key [(''name'', PStr ''TopOne''), (''compute_md5'', PBool False)] ''compute_md5''"
    by (simp add: has_key_def)
  from config_only_at_construction
         [of "[(''name'', PStr ''TopOne''), (''config'', PDict [])]" example_externals
             example_instance Inr] 1 5
  have a: "update_check_settings example_externals example_instance
        [(''name'', PStr ''TopOne''), (''config'', PDict [])] = Inl ValueError_config_outside_init
     \<and> export example_externals Inr example_instance
        [(''name'', PStr ''TopOne''), (''config'', PDict [])] = Inl ValueError_config_outside_init"
    by blast
  from config_only_at_construction
         [of "[(''name'', PStr ''TopOne'')]" example_externals example_instance Inr] 2
  have b: "update_check_settings example_externals example_instance [(''name'', PStr ''TopOne'')]
        \<noteq> Inl ValueError_config_outside_init"
    by blast
  from config_only_at_construction
         [of "[(''name'', PStr ''TopOne''), (''compute_md5'', PBool False)]" example_externals
             example_instance Inr] 6
  have c: "export example_externals Inr example_instance
        [(''name'', PStr ''TopOne''), (''compute_md5'', PBool False)]
       = Inl (TypeError_multiple_values ''compute_md5'')"
    by blast
  from 3 4 a b c show ?thesis by blast
qed
subsection \<open>Paths outside ASCII\<close>

text \<open>
  C7, as stated, fails: a file block whose \<open>relative_path\<close> has a character outside
  ASCII (here the two bytes of a with ring above) and that has no \<open>absolute_path\<close>
  passes the validator and is accepted, alone and inside a document.
\<close>

theorem non_ascii_relative_path_accepted:
  "map_of non_ascii_relative_file ''relative_path''
     = Some (PStr (''share/results/maps/bl'' @ [CHR 0xC3, CHR 0xA5] @ ''.gri''))
   \<and> \<not> isascii (''share/results/maps/bl'' @ [CHR 0xC3, CHR 0xA5] @ ''.gri'')
   \<and> check_for_non_ascii_in_path example_repr non_ascii_relative_file = Inr non_ascii_relative_file
   \<and> validate_File example_pydantic example_repr (PDict non_ascii_relative_file) \<noteq> None
   \<and> validate_Root example_pydantic example_repr
        (example_object ''polygons'' (example_fmu @ [(''realization'', example_realization)])
           [(''content'', PStr ''depth'')] non_ascii_relative_file) \<noteq> None"
  by code_simp

text \<open>
  C7, amended. The validator reads \<open>absolute_path\<close> only. A file block whose
  \<open>absolute_path\<close> is set (truthy) and has a character outside ASCII is rejected: the
  validator raises, so neither the block nor an object document holding it validates.
  When \<open>absolute_path\<close> is unset, empty or ASCII, the validator passes, whatever the
  other path fields hold.
\<close>

theorem non_ascii_absolute_path_rejected:
  "(map_of values ''absolute_path'' = Some p \<and> truthy p \<and> \<not> isascii (py_str repr p)
      \<longrightarrow> check_for_non_ascii_in_path repr values = Inl ValueError_non_ascii_path
          \<and> validate_File V repr (PDict values) = None
          \<and> (map_of doc ''file'' = Some (PDict values)
               \<longrightarrow> validate_Root V repr (PDict doc) \<noteq> Some (RootObject m)))
   \<and> (\<not> truthy (dict_get values ''absolute_path'')
       \<or> isascii (py_str repr (dict_get values ''absolute_path''))
      \<longrightarrow> check_for_non_ascii_in_path repr values = Inr values)"
proof (intro conjI impI)
  assume h: "map_of values ''absolute_path'' = Some p \<and> truthy p \<and> \<not> isascii (py_str repr p)"
  then show c: "check_for_non_ascii_in_path repr values = Inl ValueError_non_ascii_path"
    by (simp add: check_for_non_ascii_in_path_def dict_get_def)
  then show n: "validate_File V repr (PDict values) = None"
    by (simp add: validate_File_def)
  assume f: "map_of doc ''file'' = Some (PDict values)"
  show "validate_Root V repr (PDict doc) \<noteq> Some (RootObject m)"
  proof
    assume "validate_Root V repr (PDict doc) = Some (RootObject m)"
    from validate_Root_object_parts(2) [OF this] f n show False
      by (simp add: required_model_def)
  qed
next
  assume "\<not> truthy (dict_get values ''absolute_path'')
       \<or> isascii (py_str repr (dict_get values ''absolute_path''))"
  then show "check_for_non_ascii_in_path repr values = Inr values"
    by (auto simp: check_for_non_ascii_in_path_def)
qed

theorem non_ascii_absolute_path_rejected_witness:
  "validate_File example_pydantic example_repr (PDict non_ascii_absolute_file) = None
   \<and> check_for_non_ascii_in_path example_repr example_file = Inr example_file"
proof -
  let ?p = "PStr (''/scratch/bl'' @ [CHR 0xC3, CHR 0xA5] @ ''/share/results/maps/x.gri'')"
  have h: "map_of non_ascii_absolute_file ''absolute_path'' = Some ?p \<and> truthy ?p
           \<and> \<not> isascii (py_str example_repr ?p)"
    by code_simp
  have g: "\<not> truthy (dict_get example_file ''absolute_path'')"
    by code_simp
  from non_ascii_absolute_path_rejected
         [of non_ascii_absolute_file ?p example_repr example_pydantic "[]" undefined] h
  have 1: "validate_File example_pydantic example_repr (PDict non_ascii_absolute_file) = None"
    by blast
  from non_ascii_absolute_path_rejected
         [of example_file PNone example_repr example_pydantic "[]" undefined] g
  have 2: "check_for_non_ascii_in_path example_repr example_file = Inr example_file"
    by blast
  from 1 2 show ?thesis by blast
qed

subsection \<open>The file name of aggregated data\<close>

lemma replace_absent:
  assumes "old \<noteq> []" and "\<not> sublist old s"
  shows "replace s old new = s"
  using assms(2)
proof (induction s)
  case Nil
  with assms(1) show ?case by (simp add: replace.simps)
next
  case (Cons c cs)
  from Cons.prems have np: "\<not> prefix old (c # cs)" and ns: "\<not> sublist old cs"
    by (auto simp: sublist_Cons_right)
  from assms(1) np have "replace (c # cs) old new = c # replace cs old new"
    by (subst replace.simps) simp
  with Cons.IH [OF ns] show ?case by simp
qed

lemma replace_at_start:
  assumes "old \<noteq> []"
  shows "replace (old @ b) old new = new @ replace b old new"
  using assms by (subst replace.simps) simp

lemma replace_once:
  assumes "old \<noteq> []" and "\<not> sublist old (a @ butlast old)"
  shows "replace (a @ old @ b) old new = a @ new @ replace b old new"
  using assms(2)
proof (induction a)
  case Nil
  with assms(1) show ?case by (simp add: replace_at_start)
next
  case (Cons c cs)
  from Cons.prems have np: "\<not> prefix old (c # cs @ butlast old)"
    and ns: "\<not> sublist old (cs @ butlast old)"
    by (auto simp: sublist_Cons_right)
  have "\<not> prefix old (c # cs @ old @ b)"
  proof
    assume p: "prefix old (c # cs @ old @ b)"
    have "c # cs @ old @ b = (c # cs @ butlast old) @ (last old # b)"
      using assms(1) by simp
    with p have "prefix old ((c # cs @ butlast old) @ (last old # b))" by simp
    then have "prefix old (c # cs @ butlast old)
               \<or> (\<exists>us. old = (c # cs @ butlast old) @ us \<and> prefix us (last old # b))"
      by (simp only: prefix_append)
    with np obtain us where "old = (c # cs @ butlast old) @ us" by blast
    then have "length old = length (c # cs @ butlast old) + length us"
      by (metis length_append)
    moreover have "0 < length old" using assms(1) by simp
    ultimately have "us = []" by simp
    with \<open>old = (c # cs @ butlast old) @ us\<close> np show False by simp
  qed
  with assms(1) have "replace (c # cs @ old @ b) old new = c # replace (cs @ old @ b) old new"
    by (subst replace.simps) simp
  with Cons.IH [OF ns] show ?case by simp
qed

lemma join_append:
  assumes "xs \<noteq> []" and "ys \<noteq> []"
  shows "join sep (xs @ ys) = join sep xs @ sep @ join sep ys"
  using assms
proof (induction xs rule: induct_list012)
  case 1
  then show ?case by simp
next
  case (2 x)
  then show ?case by (cases ys) simp_all
next
  case (3 x y zs)
  then show ?case by simp
qed

lemma split_components:
  "\<forall>x \<in> set (split sep s). sep \<notin> set x"
  by (induction s) (auto split: list.splits)

lemma Path_of_wellformed:
  "path_root (Path_of s) \<in> set [[], ''/'', ''//'']
   \<and> list_all clean_component (path_parts (Path_of s))"
  using split_components [of "CHR ''/''"]
  by (auto simp: Path_of_def splitroot_def Let_def list_all_iff clean_component_def
           split: prod.splits if_splits)

lemma split_no_sep:
  assumes "sep \<notin> set c"
  shows "split sep c = [c]"
  using assms by (induction c) auto

lemma split_component:
  assumes "sep \<notin> set c"
  shows "split sep (c @ sep # others) = c # split sep others"
  using assms by (induction c) auto

lemma split_join:
  assumes "comps \<noteq> []" and "\<forall>c \<in> set comps. CHR ''/'' \<notin> set c"
  shows "split CHR ''/'' (join ''/'' comps) = comps"
  using assms
proof (induction comps rule: induct_list012)
  case 1
  then show ?case by simp
next
  case (2 x)
  then show ?case by (simp add: split_no_sep)
next
  case (3 x y zs)
  then show ?case by (simp add: split_component)
qed

lemma join_not_slash:
  assumes "comps \<noteq> []" and "list_all clean_component comps"
  shows "join ''/'' comps \<noteq> [] \<and> hd (join ''/'' comps) \<noteq> CHR ''/''"
  using assms
  by (induction comps rule: induct_list012)
     (auto simp: clean_component_def neq_Nil_conv)

lemma Path_of_join:
  assumes "comps \<noteq> []" and "list_all clean_component comps"
  shows "Path_of (join ''/'' comps) = \<lparr> path_root = [], path_parts = comps \<rparr>"
proof -
  have s: "splitroot (join ''/'' comps) = ([], join ''/'' comps)"
    using join_not_slash [OF assms] by (simp add: splitroot_def)
  have "\<forall>c \<in> set comps. CHR ''/'' \<notin> set c"
    using assms(2) by (auto simp: list_all_iff clean_component_def)
  from split_join [OF assms(1) this]
  have "filter (\<lambda>x. x \<noteq> [] \<and> x \<noteq> ''.'') (split CHR ''/'' (join ''/'' comps)) = comps"
    using assms(2) by (auto simp: list_all_iff clean_component_def intro!: filter_True)
  with s show ?thesis by (simp add: Path_of_def)
qed

lemma rfind_absent: "c \<notin> set s \<Longrightarrow> rfind c s = - 1"
  by (simp add: rfind_def)

lemma rfind_last:
  assumes "c \<notin> set ext"
  shows "rfind c (stem @ c # ext) = int (length stem)"
proof -
  have "takeWhile (\<lambda>x. x \<noteq> c) (rev ext @ c # rev stem) = rev ext"
    using assms by (subst takeWhile_append2) auto
  then show ?thesis by (simp add: rfind_def)
qed

lemma suffix_of_file:
  assumes "path_parts p = dirs @ [stem @ CHR ''.'' # ext]"
    and "stem \<noteq> []" "ext \<noteq> []" "CHR ''.'' \<notin> set ext"
  shows "path_suffix p = CHR ''.'' # ext" and "path_stem p = stem"
  using assms rfind_last [of "CHR ''.''" ext stem]
  by (auto simp: path_suffix_def path_stem_def path_name_def Let_def)

lemma Path_of_plain:
  assumes "plain_name u"
  shows "Path_of u = \<lparr> path_root = [], path_parts = [u] \<rparr>"
proof -
  from assms have "clean_component u"
    by (auto simp: plain_name_def dotless_def clean_component_def)
  then show ?thesis
    using Path_of_join [of "[u]"] by simp
qed

lemma with_suffix_plain:
  assumes "plain_name u" and "plain_name ext"
  shows "with_suffix (truediv p u) (CHR ''.'' # ext)
         = Inr \<lparr> path_root = path_root p, path_parts = path_parts p @ [u @ CHR ''.'' # ext] \<rparr>"
proof -
  let ?q = "truediv p u"
  have q: "?q = \<lparr> path_root = path_root p, path_parts = path_parts p @ [u] \<rparr>"
    using Path_of_plain [OF assms(1)] by (simp add: truediv_def)
  have n: "path_name ?q = u" by (simp add: q path_name_def)
  have "rfind CHR ''.'' u = - 1"
    using assms(1) by (simp add: rfind_absent plain_name_def dotless_def)
  then have s: "path_suffix ?q = []"
    by (simp add: path_suffix_def n)
  have e: "CHR ''/'' \<notin> set ext" "ext \<noteq> []" "u \<noteq> []"
    using assms by (auto simp: plain_name_def dotless_def)
  show ?thesis
    unfolding with_suffix_def using n s e by (simp add: q)
qed


lemma usename_plain:
  assumes "plain_name stem" "dotless (aggr_operation self)" "dotless (aggr_tagname self)"
    and "aggr_name self = [] \<or> plain_name (aggr_name self)"
  shows "plain_name (aggregated_usename self stem)"
  using assms
  by (auto simp: aggregated_usename_def plain_name_def dotless_def Let_def)

lemma construct_filename_casepath_missing:
  assumes "tmpl_realiname tmpl \<noteq> None" "tmpl_relpath tmpl \<noteq> None"
    and "truthy (aggr_casepath self)"
    and "isinstance (aggr_casepath self) T_str \<or> isinstance (aggr_casepath self) T_Path"
    and "\<not> path_exists fs (Path_of (pathlike_text (aggr_casepath self)))"
  shows "construct_filename fs self tmpl = Inl ValueError_casepath_not_exist"
  using assms
  by (auto simp: construct_filename_def casepath_override_def Let_def)


lemma Path_of_rooted:
  assumes "r \<in> set [[], ''/'', ''//'']" and "comps \<noteq> []" and "list_all clean_component comps"
  shows "Path_of (r @ join ''/'' comps) = \<lparr> path_root = r, path_parts = comps \<rparr>"
proof -
  let ?j = "join ''/'' comps"
  from join_not_slash [OF assms(2,3)] obtain x xs where j: "?j = x # xs" and x: "x \<noteq> CHR ''/''"
    by (cases ?j) auto
  have s: "splitroot (r @ ?j) = (r, ?j)"
    using assms(1) x unfolding j by (auto simp: splitroot_def)
  have "\<forall>c \<in> set comps. CHR ''/'' \<notin> set c"
    using assms(3) by (auto simp: list_all_iff clean_component_def)
  from split_join [OF assms(2) this]
  have "filter (\<lambda>x. x \<noteq> [] \<and> x \<noteq> ''.'') (split CHR ''/'' ?j) = comps"
    using assms(3) by (auto simp: list_all_iff clean_component_def intro!: filter_True)
  with s show ?thesis by (simp add: Path_of_def)
qed

lemma stripped_path:
  assumes r: "r \<in> set [[], ''/'', ''//'']"
    and comps: "list_all clean_component bs" "list_all clean_component rest" "rest \<noteq> []"
    and once: "\<not> sublist (rn @ ''/'') (join ''/'' rest)"
              "\<not> sublist (rn @ ''/'') (r @ join ''/'' (bs @ [rn]))"
  shows "Path_of (replace (r @ join ''/'' (bs @ rn # rest)) (rn @ ''/'') [])
         = \<lparr> path_root = r, path_parts = bs @ rest \<rparr>"
proof -
  let ?old = "rn @ ''/''"
  let ?a = "r @ (if bs = [] then [] else join ''/'' bs @ ''/'')"
  have j: "join ''/'' (rn # rest) = ?old @ join ''/'' rest"
    using comps(3) join_append [of "[rn]" rest "''/''"] by simp
  have t: "r @ join ''/'' (bs @ rn # rest) = ?a @ ?old @ join ''/'' rest"
    using j join_append [of bs "rn # rest" "''/''"] by simp
  have b: "?a @ butlast ?old = r @ join ''/'' (bs @ [rn])"
    using join_append [of bs "[rn]" "''/''"] by (simp add: butlast_append)
  have "replace (?a @ ?old @ join ''/'' rest) ?old [] = ?a @ [] @ replace (join ''/'' rest) ?old []"
    using once(2) unfolding b [symmetric] by (intro replace_once) simp
  also have "replace (join ''/'' rest) ?old [] = join ''/'' rest"
    using once(1) by (intro replace_absent) simp_all
  also have "?a @ [] @ join ''/'' rest = r @ join ''/'' (bs @ rest)"
    using comps(3) join_append [of bs rest "''/''"] by simp
  finally have "replace (r @ join ''/'' (bs @ rn # rest)) ?old [] = r @ join ''/'' (bs @ rest)"
    unfolding t .
  then show ?thesis
    using Path_of_rooted [OF r, of "bs @ rest"] comps by simp
qed

lemma casepath_text:
  assumes "clean_component rn" and "list_all clean_component rest" and "rest \<noteq> []"
  shows "path_str (truediv p (rn @ ''/'' @ join ''/'' rest))
         = path_root p @ join ''/'' (path_parts p @ rn # rest)"
proof -
  have "rn @ ''/'' @ join ''/'' rest = join ''/'' (rn # rest)"
    using assms(3) join_append [of "[rn]" rest "''/''"] by simp
  moreover have "Path_of (join ''/'' (rn # rest)) = \<lparr> path_root = [], path_parts = rn # rest \<rparr>"
    using assms by (intro Path_of_join) simp_all
  ultimately show ?thesis
    by (simp add: truediv_def path_str_def)
qed

lemma construct_filename_unfold:
  assumes rn: "tmpl_realiname tmpl = Some rn"
    and rel: "tmpl_relpath tmpl = Some (rn @ ''/'' @ join ''/'' (dirs @ [stem @ ''.'' @ ext]))"
    and once: "\<not> sublist (rn @ ''/'') (join ''/'' (dirs @ [stem @ ''.'' @ ext]))"
    and dirs: "list_all clean_component dirs"
    and names: "plain_name stem" "plain_name ext"
    and sets: "dotless (aggr_operation self)" "dotless (aggr_tagname self)"
              "aggr_name self = [] \<or> plain_name (aggr_name self)"
    and o: "casepath_override fs (aggr_casepath self)
              (rn @ ''/'' @ join ''/'' (dirs @ [stem @ ''.'' @ ext]))
              (case tmpl_abspath tmpl of
                 Some a \<Rightarrow> if a \<noteq> [] then Some a else None | None \<Rightarrow> None)
            = Inr abspath1"
  shows "construct_filename fs self tmpl
         = Inr (\<lparr> path_root = [],
                   path_parts = dirs @ [aggregated_usename self stem @ ''.'' @ ext] \<rparr>,
                (case abspath1 of
                   None \<Rightarrow> None
                 | Some a \<Rightarrow>
                     if a \<noteq> []
                     then Some \<lparr> path_root
                                   = path_root (path_parent (Path_of (replace a (rn @ ''/'') []))),
                                 path_parts
                                   = path_parts (path_parent (Path_of (replace a (rn @ ''/'') [])))
                                     @ [aggregated_usename self stem @ ''.'' @ ext] \<rparr>
                     else None),
                if aggr_name self = [] then [UserWarning_name_not_given] else [])"
proof -
  let ?file = "stem @ CHR ''.'' # ext"
  let ?rest = "join ''/'' (dirs @ [?file])"
  let ?old = "rn @ ''/''"
  let ?u = "aggregated_usename self stem"
  have fc: "clean_component ?file"
    using names
    by (auto simp: clean_component_def plain_name_def dotless_def append_eq_Cons_conv)
  have "replace (?old @ ?rest) ?old [] = [] @ replace ?rest ?old []"
    by (rule replace_at_start) simp
  also have "replace ?rest ?old [] = ?rest"
    using once by (intro replace_absent) simp_all
  finally have r: "replace (rn @ CHR ''/'' # ?rest) ?old [] = ?rest"
    by simp
  have p: "Path_of ?rest = \<lparr> path_root = [], path_parts = dirs @ [?file] \<rparr>"
    using dirs fc by (intro Path_of_join) simp_all
  have e: "ext \<noteq> []" "stem \<noteq> []" "CHR ''.'' \<notin> set ext"
    using names by (auto simp: plain_name_def dotless_def)
  have sfx: "path_suffix (Path_of ?rest) = CHR ''.'' # ext"
    and stem: "path_stem (Path_of ?rest) = stem"
    using suffix_of_file [of "Path_of ?rest" dirs stem ext] p e by simp_all
  have parent: "path_parent (Path_of ?rest) = \<lparr> path_root = [], path_parts = dirs \<rparr>"
    by (simp add: p path_parent_def)
  have u: "plain_name ?u"
    using names(1) sets by (rule usename_plain)
  have w: "with_suffix (truediv q ?u) (CHR ''.'' # ext)
           = Inr \<lparr> path_root = path_root q, path_parts = path_parts q @ [?u @ CHR ''.'' # ext] \<rparr>"
    for q
    using u names(2) by (rule with_suffix_plain)
  from o have o': "casepath_override fs (aggr_casepath self) (rn @ CHR ''/'' # ?rest)
              (case tmpl_abspath tmpl of
                 Some a \<Rightarrow> if a \<noteq> [] then Some a else None | None \<Rightarrow> None)
            = Inr abspath1"
    by simp
  show ?thesis
    using rn rel o'
    by (cases abspath1)
       (simp_all add: construct_filename_def Let_def r sfx stem parent w)
qed

lemma file_component:
  assumes "plain_name stem" and "plain_name ext"
  shows "clean_component (stem @ ''.'' @ ext)"
  using assms
  by (auto simp: clean_component_def plain_name_def dotless_def append_eq_Cons_conv)


text \<open>
  C8, as stated, fails: with a name given, the file of the docstring's template is named
  by that name, not by stem and operation.
\<close>

theorem given_name_replaces_stem_and_operation:
  "tmpl_relpath example_template = Some ''realization-33/iter-0/share/results/maps/x.gri''
   \<and> aggr_operation (example_aggregated PNone ''aggr'' []) = ''mean''
   \<and> \<not> isl (construct_filename example_filesystem (example_aggregated PNone ''aggr'' [])
              example_template)
   \<and> path_str (fst (projr (construct_filename example_filesystem
                              (example_aggregated PNone ''aggr'' []) example_template)))
       = ''iter-0/share/results/maps/aggr.gri''"
  by code_simp

text \<open>
  C8, amended. A case path that is given and does not exist makes the operation fail with
  the ValueError, once the template has its realization name and relative path. Take a
  template whose relative path is the realization folder \<open>rn\<close>, directories and a file
  \<open>stem.ext\<close>, the text of the folder with its slash occurring nowhere further on,
  with stem, extension, operation, tag and name free of dots and slashes. The file is
  then named by the given name when there is one, by stem, two dashes and operation
  otherwise, then two dashes and the tag when there is one, then the extension; a name
  that is not given is warned about. The relative file name is the directories and that
  file. The absolute file name is, with no case path given: none, when the template has
  no absolute path; and when the absolute path of the template is the relative one under
  base directories from the root, the folder text occurring nowhere before, it is the
  base directories, the directories and the file. With a case path given that exists,
  the folder text not occurring in it nor across its end, the absolute file name is the
  case path, the directories and the file.
\<close>

theorem aggregated_filename:
  "(tmpl_realiname tmpl \<noteq> None \<and> tmpl_relpath tmpl \<noteq> None
    \<and> truthy (aggr_casepath self)
    \<and> (isinstance (aggr_casepath self) T_str \<or> isinstance (aggr_casepath self) T_Path)
    \<and> \<not> path_exists fs (Path_of (pathlike_text (aggr_casepath self)))
    \<longrightarrow> construct_filename fs self tmpl = Inl ValueError_casepath_not_exist)
   \<and> (tmpl_realiname tmpl = Some rn
      \<and> tmpl_relpath tmpl = Some (rn @ ''/'' @ join ''/'' (dirs @ [stem @ ''.'' @ ext]))
      \<and> \<not> sublist (rn @ ''/'') (join ''/'' (dirs @ [stem @ ''.'' @ ext]))
      \<and> list_all clean_component dirs \<and> plain_name stem \<and> plain_name ext
      \<and> dotless (aggr_operation self) \<and> dotless (aggr_tagname self)
      \<and> (aggr_name self = [] \<or> plain_name (aggr_name self))
      \<and> fname = (if aggr_name self = [] then stem @ ''--'' @ aggr_operation self
                  else aggr_name self)
                 @ (if aggr_tagname self = [] then [] else ''--'' @ aggr_tagname self)
                 @ ''.'' @ ext
      \<and> ws = (if aggr_name self = [] then [UserWarning_name_not_given] else [])
      \<longrightarrow>
        (\<not> truthy (aggr_casepath self)
         \<and> (tmpl_abspath tmpl = None \<or> tmpl_abspath tmpl = Some [])
         \<longrightarrow> construct_filename fs self tmpl
              = Inr (\<lparr> path_root = [], path_parts = dirs @ [fname] \<rparr>, None, ws))
      \<and> (\<not> truthy (aggr_casepath self)
         \<and> tmpl_abspath tmpl
             = Some (''/'' @ join ''/'' (base @ rn # dirs @ [stem @ ''.'' @ ext]))
         \<and> list_all clean_component base
         \<and> \<not> sublist (rn @ ''/'') (''/'' @ join ''/'' (base @ [rn]))
         \<longrightarrow> construct_filename fs self tmpl
              = Inr (\<lparr> path_root = [], path_parts = dirs @ [fname] \<rparr>,
                     Some \<lparr> path_root = ''/'', path_parts = base @ dirs @ [fname] \<rparr>, ws))
      \<and> (truthy (aggr_casepath self)
         \<and> (isinstance (aggr_casepath self) T_str \<or> isinstance (aggr_casepath self) T_Path)
         \<and> casepath = Path_of (pathlike_text (aggr_casepath self))
         \<and> path_exists fs casepath
         \<and> clean_component rn
         \<and> \<not> sublist (rn @ ''/'') (path_root casepath @ join ''/'' (path_parts casepath @ [rn]))
         \<longrightarrow> construct_filename fs self tmpl
              = Inr (\<lparr> path_root = [], path_parts = dirs @ [fname] \<rparr>,
                     Some \<lparr> path_root = path_root casepath,
                            path_parts = path_parts casepath @ dirs @ [fname] \<rparr>, ws)))"
proof (intro conjI impI)
  assume "tmpl_realiname tmpl \<noteq> None \<and> tmpl_relpath tmpl \<noteq> None
    \<and> truthy (aggr_casepath self)
    \<and> (isinstance (aggr_casepath self) T_str \<or> isinstance (aggr_casepath self) T_Path)
    \<and> \<not> path_exists fs (Path_of (pathlike_text (aggr_casepath self)))"
  then show "construct_filename fs self tmpl = Inl ValueError_casepath_not_exist"
    using construct_filename_casepath_missing by blast
next
  let ?file = "stem @ ''.'' @ ext"
  let ?relpath0 = "rn @ ''/'' @ join ''/'' (dirs @ [?file])"
  let ?abspath0 = "case tmpl_abspath tmpl of
                     Some a \<Rightarrow> if a \<noteq> [] then Some a else None | None \<Rightarrow> None"
  let ?rel = "\<lparr> path_root = [], path_parts = dirs @ [fname] \<rparr>"
  assume h: "tmpl_realiname tmpl = Some rn
      \<and> tmpl_relpath tmpl = Some ?relpath0
      \<and> \<not> sublist (rn @ ''/'') (join ''/'' (dirs @ [?file]))
      \<and> list_all clean_component dirs \<and> plain_name stem \<and> plain_name ext
      \<and> dotless (aggr_operation self) \<and> dotless (aggr_tagname self)
      \<and> (aggr_name self = [] \<or> plain_name (aggr_name self))
      \<and> fname = (if aggr_name self = [] then stem @ ''--'' @ aggr_operation self
                  else aggr_name self)
                 @ (if aggr_tagname self = [] then [] else ''--'' @ aggr_tagname self)
                 @ ''.'' @ ext
      \<and> ws = (if aggr_name self = [] then [UserWarning_name_not_given] else [])"
  then have fname: "aggregated_usename self stem @ ''.'' @ ext = fname"
    by (simp add: aggregated_usename_def Let_def)
  from h have once: "\<not> sublist (rn @ ''/'') (join ''/'' (dirs @ [?file]))"
    and dirs: "list_all clean_component dirs"
    by blast+
  from h have fc: "clean_component ?file"
    using file_component by blast
  have rest: "list_all clean_component (dirs @ [?file])" "dirs @ [?file] \<noteq> []"
    using dirs fc by simp_all
  have unfold: "construct_filename fs self tmpl
         = Inr (?rel,
                (case abspath1 of
                   None \<Rightarrow> None
                 | Some a \<Rightarrow>
                     if a \<noteq> []
                     then Some \<lparr> path_root
                                   = path_root (path_parent (Path_of (replace a (rn @ ''/'') []))),
                                 path_parts
                                   = path_parts (path_parent (Path_of (replace a (rn @ ''/'') [])))
                                     @ [fname] \<rparr>
                     else None), ws)"
    if "casepath_override fs (aggr_casepath self) ?relpath0 ?abspath0 = Inr abspath1"
    for abspath1
    using construct_filename_unfold [of tmpl rn dirs stem ext self fs abspath1] h that
    unfolding fname by blast
  have strip: "path_parent (Path_of (replace (r @ join ''/'' (bs @ rn # dirs @ [?file]))
                               (rn @ ''/'') []))
               = \<lparr> path_root = r, path_parts = bs @ dirs \<rparr>"
    if "r \<in> set [[], ''/'', ''//'']" "list_all clean_component bs"
       "\<not> sublist (rn @ ''/'') (r @ join ''/'' (bs @ [rn]))"
    for r bs
    using stripped_path [OF that(1,2) rest once that(3)]
    by (simp add: path_parent_def butlast_append)
  {
    assume c: "\<not> truthy (aggr_casepath self)
         \<and> (tmpl_abspath tmpl = None \<or> tmpl_abspath tmpl = Some [])"
    then have "casepath_override fs (aggr_casepath self) ?relpath0 ?abspath0 = Inr None"
      by (auto simp: casepath_override_def)
    from unfold [OF this] show "construct_filename fs self tmpl = Inr (?rel, None, ws)"
      by simp
  }
  {
    let ?a = "''/'' @ join ''/'' (base @ rn # dirs @ [?file])"
    assume c: "\<not> truthy (aggr_casepath self)
         \<and> tmpl_abspath tmpl = Some ?a
         \<and> list_all clean_component base
         \<and> \<not> sublist (rn @ ''/'') (''/'' @ join ''/'' (base @ [rn]))"
    then have "casepath_override fs (aggr_casepath self) ?relpath0 ?abspath0 = Inr (Some ?a)"
      by (auto simp: casepath_override_def)
    from unfold [OF this] strip [of "''/''" base] c
    show "construct_filename fs self tmpl
          = Inr (?rel, Some \<lparr> path_root = ''/'', path_parts = base @ dirs @ [fname] \<rparr>, ws)"
      by simp
  }
  {
    assume c: "truthy (aggr_casepath self)
         \<and> (isinstance (aggr_casepath self) T_str \<or> isinstance (aggr_casepath self) T_Path)
         \<and> casepath = Path_of (pathlike_text (aggr_casepath self))
         \<and> path_exists fs casepath
         \<and> clean_component rn
         \<and> \<not> sublist (rn @ ''/'') (path_root casepath @ join ''/'' (path_parts casepath @ [rn]))"
    let ?a = "path_root casepath @ join ''/'' (path_parts casepath @ rn # dirs @ [?file])"
    from c have t: "truthy (aggr_casepath self)"
      and pl: "isinstance (aggr_casepath self) T_str \<or> isinstance (aggr_casepath self) T_Path"
      and eq: "Path_of (pathlike_text (aggr_casepath self)) = casepath"
      and ex: "path_exists fs casepath"
      by blast+
    from c have "path_str (truediv casepath ?relpath0) = ?a"
      using casepath_text [of rn "dirs @ [?file]" casepath] rest by simp
    with t pl ex have o: "casepath_override fs (aggr_casepath self) ?relpath0 ?abspath0
                          = Inr (Some ?a)"
      unfolding casepath_override_def Let_def eq by simp
    have wf: "path_root casepath \<in> set [[], ''/'', ''//'']"
         "list_all clean_component (path_parts casepath)"
      using Path_of_wellformed [of "pathlike_text (aggr_casepath self)"] unfolding eq
      by simp_all
    have ne: "?a \<noteq> []"
      using join_not_slash [of "path_parts casepath @ rn # dirs @ [?file]"] wf(2) rest c
      by simp
    from c have s: "path_parent (Path_of (replace ?a (rn @ ''/'') []))
                    = \<lparr> path_root = path_root casepath, path_parts = path_parts casepath @ dirs \<rparr>"
      using strip [OF wf] by blast
    from unfold [OF o] ne s
    show "construct_filename fs self tmpl
          = Inr (?rel, Some \<lparr> path_root = path_root casepath,
                               path_parts = path_parts casepath @ dirs @ [fname] \<rparr>, ws)"
      by simp
  }
qed

theorem aggregated_filename_witness:
  "construct_filename example_filesystem
      (example_aggregated (PStr ''/scratch/f/othercase'') ''aggr'' []) example_template
     = Inl ValueError_casepath_not_exist
   \<and> construct_filename example_filesystem (example_aggregated PNone ''aggr'' ''tag'')
       example_template
     = Inr (Path_of ''iter-0/share/results/maps/aggr--tag.gri'',
            Some (Path_of ''/scratch/f/case/iter-0/share/results/maps/aggr--tag.gri''), [])
   \<and> construct_filename example_filesystem (example_aggregated (PStr ''/scratch/f'') ''aggr'' [])
       example_template
     = Inr (Path_of ''iter-0/share/results/maps/aggr.gri'',
            Some (Path_of ''/scratch/f/iter-0/share/results/maps/aggr.gri''), [])
   \<and> construct_filename example_filesystem (example_aggregated PNone [] ''tag'')
       example_cloud_template
     = Inr (Path_of ''iter-0/share/results/maps/x--mean--tag.gri'', None,
            [UserWarning_name_not_given])"
proof -
  let ?a = "example_aggregated (PStr ''/scratch/f/othercase'') ''aggr'' []"
  let ?b = "example_aggregated PNone ''aggr'' ''tag''"
  let ?c = "example_aggregated (PStr ''/scratch/f'') ''aggr'' []"
  let ?d = "example_aggregated PNone [] ''tag''"
  let ?dirs = "[''iter-0'', ''share'', ''results'', ''maps'']"
  have a: "tmpl_realiname example_template \<noteq> None \<and> tmpl_relpath example_template \<noteq> None
    \<and> truthy (aggr_casepath ?a)
    \<and> (isinstance (aggr_casepath ?a) T_str \<or> isinstance (aggr_casepath ?a) T_Path)
    \<and> \<not> path_exists example_filesystem (Path_of (pathlike_text (aggr_casepath ?a)))"
    by code_simp
  have b: "tmpl_realiname example_template = Some ''realization-33''
      \<and> tmpl_relpath example_template
          = Some (''realization-33'' @ ''/'' @ join ''/'' (?dirs @ [''x'' @ ''.'' @ ''gri'']))
      \<and> \<not> sublist (''realization-33'' @ ''/'') (join ''/'' (?dirs @ [''x'' @ ''.'' @ ''gri'']))
      \<and> list_all clean_component ?dirs \<and> plain_name ''x'' \<and> plain_name ''gri''
      \<and> dotless (aggr_operation ?b) \<and> dotless (aggr_tagname ?b)
      \<and> (aggr_name ?b = [] \<or> plain_name (aggr_name ?b))
      \<and> ''aggr--tag.gri''
          = (if aggr_name ?b = [] then ''x'' @ ''--'' @ aggr_operation ?b
             else aggr_name ?b)
            @ (if aggr_tagname ?b = [] then [] else ''--'' @ aggr_tagname ?b)
            @ ''.'' @ ''gri''
      \<and> [] = (if aggr_name ?b = [] then [UserWarning_name_not_given] else [])"
    by code_simp
  have c: "tmpl_realiname example_template = Some ''realization-33''
      \<and> tmpl_relpath example_template
          = Some (''realization-33'' @ ''/'' @ join ''/'' (?dirs @ [''x'' @ ''.'' @ ''gri'']))
      \<and> \<not> sublist (''realization-33'' @ ''/'') (join ''/'' (?dirs @ [''x'' @ ''.'' @ ''gri'']))
      \<and> list_all clean_component ?dirs \<and> plain_name ''x'' \<and> plain_name ''gri''
      \<and> dotless (aggr_operation ?c) \<and> dotless (aggr_tagname ?c)
      \<and> (aggr_name ?c = [] \<or> plain_name (aggr_name ?c))
      \<and> ''aggr.gri''
          = (if aggr_name ?c = [] then ''x'' @ ''--'' @ aggr_operation ?c
             else aggr_name ?c)
            @ (if aggr_tagname ?c = [] then [] else ''--'' @ aggr_tagname ?c)
            @ ''.'' @ ''gri''
      \<and> [] = (if aggr_name ?c = [] then [UserWarning_name_not_given] else [])"
    by code_simp
  have d: "tmpl_realiname example_cloud_template = Some ''realization-33''
      \<and> tmpl_relpath example_cloud_template
          = Some (''realization-33'' @ ''/'' @ join ''/'' (?dirs @ [''x'' @ ''.'' @ ''gri'']))
      \<and> \<not> sublist (''realization-33'' @ ''/'') (join ''/'' (?dirs @ [''x'' @ ''.'' @ ''gri'']))
      \<and> list_all clean_component ?dirs \<and> plain_name ''x'' \<and> plain_name ''gri''
      \<and> dotless (aggr_operation ?d) \<and> dotless (aggr_tagname ?d)
      \<and> (aggr_name ?d = [] \<or> plain_name (aggr_name ?d))
      \<and> ''x--mean--tag.gri''
          = (if aggr_name ?d = [] then ''x'' @ ''--'' @ aggr_operation ?d
             else aggr_name ?d)
            @ (if aggr_tagname ?d = [] then [] else ''--'' @ aggr_tagname ?d)
            @ ''.'' @ ''gri''
      \<and> [UserWarning_name_not_given] = (if aggr_name ?d = [] then [UserWarning_name_not_given] else [])"
    by code_simp
  have b': "\<not> truthy (aggr_casepath ?b)
         \<and> tmpl_abspath example_template
             = Some (''/'' @ join ''/'' ([''scratch'', ''f'', ''case'']
                                       @ ''realization-33'' # ?dirs @ [''x'' @ ''.'' @ ''gri'']))
         \<and> list_all clean_component [''scratch'', ''f'', ''case'']
         \<and> \<not> sublist (''realization-33'' @ ''/'')
               (''/'' @ join ''/'' ([''scratch'', ''f'', ''case''] @ [''realization-33'']))"
    by code_simp
  have c': "truthy (aggr_casepath ?c)
         \<and> (isinstance (aggr_casepath ?c) T_str \<or> isinstance (aggr_casepath ?c) T_Path)
         \<and> \<lparr> path_root = ''/'', path_parts = [''scratch'', ''f''] \<rparr>
             = Path_of (pathlike_text (aggr_casepath ?c))
         \<and> path_exists example_filesystem \<lparr> path_root = ''/'', path_parts = [''scratch'', ''f''] \<rparr>
         \<and> clean_component ''realization-33''
         \<and> \<not> sublist (''realization-33'' @ ''/'')
               (path_root \<lparr> path_root = ''/'', path_parts = [''scratch'', ''f''] \<rparr>
                @ join ''/'' (path_parts \<lparr> path_root = ''/'', path_parts = [''scratch'', ''f''] \<rparr>
                              @ [''realization-33'']))"
    by code_simp
  have d': "\<not> truthy (aggr_casepath ?d)
         \<and> (tmpl_abspath example_cloud_template = None
             \<or> tmpl_abspath example_cloud_template = Some [])"
    by code_simp
  have p: "Path_of ''iter-0/share/results/maps/aggr--tag.gri''
             = \<lparr> path_root = [], path_parts = ?dirs @ [''aggr--tag.gri''] \<rparr>"
          "Path_of ''/scratch/f/case/iter-0/share/results/maps/aggr--tag.gri''
             = \<lparr> path_root = ''/'',
                 path_parts = [''scratch'', ''f'', ''case''] @ ?dirs @ [''aggr--tag.gri''] \<rparr>"
          "Path_of ''iter-0/share/results/maps/aggr.gri''
             = \<lparr> path_root = [], path_parts = ?dirs @ [''aggr.gri''] \<rparr>"
          "Path_of ''/scratch/f/iter-0/share/results/maps/aggr.gri''
             = \<lparr> path_root = path_root \<lparr> path_root = ''/'', path_parts = [''scratch'', ''f''] \<rparr>,
                 path_parts = path_parts \<lparr> path_root = ''/'', path_parts = [''scratch'', ''f''] \<rparr>
                              @ ?dirs @ [''aggr.gri''] \<rparr>"
          "Path_of ''iter-0/share/results/maps/x--mean--tag.gri''
             = \<lparr> path_root = [], path_parts = ?dirs @ [''x--mean--tag.gri''] \<rparr>"
    by code_simp+
  note ta = aggregated_filename
              [of example_template ?a example_filesystem undefined undefined undefined undefined
                  undefined undefined undefined undefined,
               THEN conjunct1, THEN mp, OF a]
  note tb = aggregated_filename
              [of example_template ?b example_filesystem "''realization-33''" ?dirs "''x''"
                  "''gri''" "''aggr--tag.gri''" "[]" "[''scratch'', ''f'', ''case'']" undefined,
               THEN conjunct2, THEN mp, OF b, THEN conjunct2, THEN conjunct1, THEN mp, OF b']
  note tc = aggregated_filename
              [of example_template ?c example_filesystem "''realization-33''" ?dirs "''x''"
                  "''gri''" "''aggr.gri''" "[]" undefined
                  "\<lparr> path_root = ''/'', path_parts = [''scratch'', ''f''] \<rparr>",
               THEN conjunct2, THEN mp, OF c, THEN conjunct2, THEN conjunct2, THEN mp, OF c']
  note td = aggregated_filename
              [of example_cloud_template ?d example_filesystem "''realization-33''" ?dirs "''x''"
                  "''gri''" "''x--mean--tag.gri''" "[UserWarning_name_not_given]" undefined
                  undefined,
               THEN conjunct2, THEN mp, OF d, THEN conjunct1, THEN mp, OF d']
  from ta tb tc td show ?thesis
    unfolding p by blast
qed
subsection \<open>Initializing a case twice\<close>

lemma generate_metadata_when_present:
  assumes "path_exists (filesystem w) (path_parent (case_metafile self))"
    and "path_exists (filesystem w) (case_metafile self)"
  shows "InitializeCase_generate_metadata X (self, w)
         = Inr ([], self, w \<lparr> emitted := emitted w @ [UserWarning_case_metadata_exists] \<rparr>)"
  using assms
  by (simp add: InitializeCase_generate_metadata_def establish_metadata_files_def)

lemma export_when_present:
  assumes "path_exists (filesystem w) (path_parent (case_metafile self))"
    and "path_exists (filesystem w) (case_metafile self)"
  shows "InitializeCase_export X (self, w)
         = Inr (path_str (case_metafile self), self,
                w \<lparr> emitted := emitted w @ [UserWarning_case_metadata_exists] \<rparr>)"
  using generate_metadata_when_present [OF assms]
  by (simp add: InitializeCase_export_def)

lemma Path_of_metafile:
  "Path_of ''share/metadata/fmu_case.yml''
   = \<lparr> path_root = [], path_parts = [''share'', ''metadata'', ''fmu_case.yml''] \<rparr>"
  by (simp add: Path_of_def splitroot_def)

lemma InitializeCase_new_fields:
  assumes "InitializeCase_new X pwd cfg root name user descr = Inr self"
  shows "case_metadata self = []"
    and "path_parts (path_parent (case_metafile self)) \<noteq> []"
  using assms
  by (auto simp: InitializeCase_new_def Let_def truediv_def Path_of_metafile path_parent_def
                 butlast_append
           split: if_splits)

lemma mkdir_parents_exists:
  assumes "mkdir_parents fs p = Some fs'" and "path_parts p \<noteq> []"
  shows "path_exists fs' p" and "files fs' = files fs"
proof -
  have "path_str p \<in> set (lineage p)"
  proof -
    have "length (path_parts p) \<in> set [1..<Suc (length (path_parts p))]"
      using assms(2) by (cases "path_parts p") auto
    moreover have "path_str \<lparr> path_root = path_root p,
                          path_parts = take (length (path_parts p)) (path_parts p) \<rparr>
                   = path_str p"
      by (simp add: path_str_def)
    ultimately show ?thesis
      unfolding lineage_def set_map by (metis (no_types, lifting) image_eqI)
  qed
  with assms(1) show "path_exists fs' p"
    by (auto simp: mkdir_parents_def path_exists_def split: if_splits)
  from assms(1) show "files fs' = files fs"
    by (auto simp: mkdir_parents_def split: if_splits)
qed

lemma establish_metadata_files_result:
  assumes "establish_metadata_files self w = Inr (fresh, w1)"
    and "path_parts (path_parent (case_metafile self)) \<noteq> []"
  shows "path_exists (filesystem w1) (path_parent (case_metafile self))"
    and "files (filesystem w1) = files (filesystem w)"
    and "emitted w1 = emitted w" and "draws w1 = draws w"
    and "fresh = (\<not> path_exists (filesystem w1) (case_metafile self))"
  using assms mkdir_parents_exists [of "filesystem w" "path_parent (case_metafile self)"]
  by (auto simp: establish_metadata_files_def Let_def split: if_splits option.splits)

lemma generate_metadata_result:
  assumes "InitializeCase_generate_metadata X (self, w) = Inr (meta, self1, w1)"
    and "path_parts (path_parent (case_metafile self)) \<noteq> []"
  shows "files (filesystem w1) = files (filesystem w)"
    and "case_metafile self1 = case_metafile self"
    and "path_exists (filesystem w1) (path_parent (case_metafile self))"
    and "meta \<noteq> [] \<longrightarrow> case_metadata self1 = meta"
    and "meta = [] \<longrightarrow> case_metadata self1 = case_metadata self \<or> case_metadata self1 = []"
proof -
  from assms(1) obtain fresh w0 where
    e: "establish_metadata_files self w = Inr (fresh, w0)"
    by (auto simp: InitializeCase_generate_metadata_def split: sum.splits)
  note r = establish_metadata_files_result [OF e assms(2)]
  from assms(1) e r show "files (filesystem w1) = files (filesystem w)"
    and "case_metafile self1 = case_metafile self"
    and "path_exists (filesystem w1) (path_parent (case_metafile self))"
    and "meta \<noteq> [] \<longrightarrow> case_metadata self1 = meta"
    and "meta = [] \<longrightarrow> case_metadata self1 = case_metadata self \<or> case_metadata self1 = []"
    by (auto simp: InitializeCase_generate_metadata_def split: if_splits option.splits)
qed

text \<open>
  C9, as stated, fails: \<^verbatim>\<open>generate_metadata\<close> makes the directory, not the file. After
  a first call on a new case the metadata file does not exist, and a second call returns
  another document that is not empty, with another uuid, and gives no warning.
\<close>

theorem generate_metadata_twice_not_idempotent:
  "\<not> isl first_generate
   \<and> fst (projr first_generate) \<noteq> []
   \<and> \<not> path_exists (filesystem (snd (snd (projr first_generate)))) (case_metafile example_case)
   \<and> \<not> isl second_generate
   \<and> fst (projr second_generate) \<noteq> []
   \<and> fst (projr second_generate) \<noteq> fst (projr first_generate)
   \<and> emitted (snd (snd (projr second_generate))) = []"
  by code_simp

text \<open>
  C9, amended. \<^verbatim>\<open>export\<close> is what writes the file. When the first \<^verbatim>\<open>export\<close> of a
  case initializer gave a document that is not empty, the document is in the case
  metadata file; from then on, for every initializer of the same case metadata file,
  \<^verbatim>\<open>generate_metadata\<close> returns the empty mapping and gives a warning, not an error,
  and \<^verbatim>\<open>export\<close> leaves the files, and so the uuid on disk, as they are.
\<close>

theorem case_metadata_written_once:
  "InitializeCase_new X pwd cfg root name user descr = Inr self
   \<and> InitializeCase_export X (self, w) = Inr (p, self1, w1)
   \<and> case_metadata self1 \<noteq> []
   \<and> case_metafile other = case_metafile self
   \<longrightarrow> p = path_str (case_metafile self)
       \<and> map_of (files (filesystem w1)) p = Some (case_metadata self1)
       \<and> InitializeCase_generate_metadata X (other, w1)
           = Inr ([], other, w1 \<lparr> emitted := emitted w1 @ [UserWarning_case_metadata_exists] \<rparr>)
       \<and> InitializeCase_export X (other, w1)
           = Inr (p, other, w1 \<lparr> emitted := emitted w1 @ [UserWarning_case_metadata_exists] \<rparr>)"
proof (intro impI)
  assume h: "InitializeCase_new X pwd cfg root name user descr = Inr self
   \<and> InitializeCase_export X (self, w) = Inr (p, self1, w1)
   \<and> case_metadata self1 \<noteq> []
   \<and> case_metafile other = case_metafile self"
  note n = InitializeCase_new_fields [of X pwd cfg root name user descr self]
  from h n have e0: "case_metadata self = []"
    and pp: "path_parts (path_parent (case_metafile self)) \<noteq> []" by auto
  from h obtain meta w0 where
    g: "InitializeCase_generate_metadata X (self, w) = Inr (meta, self1, w0)"
    by (auto simp: InitializeCase_export_def split: sum.splits prod.splits if_splits)
  note r = generate_metadata_result [OF g pp]
  from r e0 h have m: "meta \<noteq> []" by auto
  with g h have w1: "w1 = w0 \<lparr> filesystem :=
                          export_metadata_file (filesystem w0) (case_metafile self1)
                            (case_metadata self1) \<rparr>"
    and p: "p = path_str (case_metafile self1)"
    by (auto simp: InitializeCase_export_def)
  show "p = path_str (case_metafile self)
       \<and> map_of (files (filesystem w1)) p = Some (case_metadata self1)
       \<and> InitializeCase_generate_metadata X (other, w1)
           = Inr ([], other, w1 \<lparr> emitted := emitted w1 @ [UserWarning_case_metadata_exists] \<rparr>)
       \<and> InitializeCase_export X (other, w1)
           = Inr (p, other, w1 \<lparr> emitted := emitted w1 @ [UserWarning_case_metadata_exists] \<rparr>)"
  proof -
    have a: "p = path_str (case_metafile self)" using p r by simp
    have b: "map_of (files (filesystem w1)) p = Some (case_metadata self1)"
      using w1 p by (simp add: export_metadata_file_def update_conv')
    have c: "path_exists (filesystem w1) (case_metafile other)"
      using b a h by (simp add: path_exists_def has_key_def)
    have d: "path_exists (filesystem w1) (path_parent (case_metafile other))"
      using r(3) w1 h
      by (auto simp: path_exists_def export_metadata_file_def has_key_def update_conv')
    from generate_metadata_when_present [OF d c] export_when_present [OF d c] a b h
    show ?thesis by simp
  qed
qed


theorem case_metadata_written_once_witness:
  "map_of (files (filesystem (snd (snd (projr first_export)))))
      ''/scratch/nn/case/share/metadata/fmu_case.yml''
     = Some (case_metadata (fst (snd (projr first_export))))
   \<and> case_metadata (fst (snd (projr first_export))) \<noteq> []
   \<and> InitializeCase_generate_metadata example_case_externals (snd (projr first_export))
       = Inr ([], fst (snd (projr first_export)),
              snd (snd (projr first_export)) \<lparr> emitted := [UserWarning_case_metadata_exists] \<rparr>)"
proof -
  let ?X = example_case_externals
  let ?cfg = "PDict [(''masterdata'', PDict [(''smda'', PDict [])]),
                     (''model'', PDict [(''name'', PStr ''Drogon'')])]"
  let ?self1 = "fst (snd (projr first_export))" and ?w1 = "snd (snd (projr first_export))"
  have "\<not> isl (InitializeCase_new ?X (Path_of ''/scratch/nn'') ?cfg
                   ''/scratch/nn/case'' ''MyCaseName'' ''peesv'' PNone)"
    by code_simp
  then have n: "InitializeCase_new ?X (Path_of ''/scratch/nn'') ?cfg
                   ''/scratch/nn/case'' ''MyCaseName'' ''peesv'' PNone = Inr example_case"
    unfolding example_case_def by (simp add: sum.collapse(2))
  have "\<not> isl first_export"
    by code_simp
  then have e: "InitializeCase_export ?X (example_case, empty_world)
                = Inr (fst (projr first_export), ?self1, ?w1)"
    unfolding first_export_def by (simp add: sum.collapse(2))
  have m: "case_metadata ?self1 \<noteq> []"
    by code_simp
  have p: "path_str (case_metafile example_case) = ''/scratch/nn/case/share/metadata/fmu_case.yml''"
    by code_simp
  have w: "emitted ?w1 = []"
    by code_simp
  have s: "snd (projr first_export) = (?self1, ?w1)"
    by simp
  have f: "case_metafile ?self1 = case_metafile example_case"
    by code_simp
  from n e m f have prem:
    "InitializeCase_new ?X (Path_of ''/scratch/nn'') ?cfg
        ''/scratch/nn/case'' ''MyCaseName'' ''peesv'' PNone = Inr example_case
     \<and> InitializeCase_export ?X (example_case, empty_world)
          = Inr (fst (projr first_export), ?self1, ?w1)
     \<and> case_metadata ?self1 \<noteq> []
     \<and> case_metafile ?self1 = case_metafile example_case"
    by (intro conjI)
  note c = case_metadata_written_once
         [of ?X "Path_of ''/scratch/nn''" ?cfg "''/scratch/nn/case''" "''MyCaseName''" "''peesv''"
             PNone example_case empty_world "fst (projr first_export)" ?self1 ?w1 ?self1,
          THEN mp, OF prem]
  have "fst (projr first_export) = path_str (case_metafile example_case)"
    and "map_of (files (filesystem ?w1)) (fst (projr first_export))
              = Some (case_metadata ?self1)"
    and "InitializeCase_generate_metadata ?X (?self1, ?w1)
              = Inr ([], ?self1, ?w1 \<lparr> emitted := emitted ?w1 @ [UserWarning_case_metadata_exists] \<rparr>)"
    using c [THEN conjunct1] c [THEN conjunct2, THEN conjunct1]
      c [THEN conjunct2, THEN conjunct2, THEN conjunct1]
    by - assumption+
  then show ?thesis
    using m p w s by simp
qed

subsection \<open>The vertical domain after construction\<close>

lemma apply_settings_other_key:
  assumes "apply_settings legals self items = Inr self'" and "\<not> has_key items k"
  shows "getattr self' k = getattr self k"
  using assms
proof (induction items arbitrary: self)
  case Nil
  then show ?case by simp
next
  case (Cons kv others)
  obtain k' v where kv: "kv = (k', v)" by (cases kv)
  from Cons.prems(2) kv have k: "k' \<noteq> k" and o: "\<not> has_key others k"
    by (auto simp: has_key_def split: if_splits)
  from Cons.prems(1) kv obtain ok where
    r: "apply_settings legals (if ok then setattr self k' v else self) others = Inr self'"
    by (auto split: sum.splits)
  from Cons.IH [OF r o] k show ?case by simp
qed

lemma settings_from_env_other_key:
  assumes "settings_from_env env self = Inr self'" and "\<not> settings_file_sets env k"
  shows "getattr self' k = getattr self k"
  using assms apply_settings_other_key
  by (auto simp: settings_from_env_def settings_file_sets_def
           split: option.splits if_splits pyval.splits)

lemma config_from_env_other_key:
  assumes "config_from_env env self = Inr self'" and "k \<noteq> ''config''"
  shows "getattr self' k = getattr self k"
  using assms
  by (auto simp: config_from_env_def split: option.splits)

lemma validate_content_key_other_key:
  assumes "validate_content_key X self = Inr self'"
    and "k \<noteq> ''_usecontent''" "k \<noteq> ''_content_specific''"
  shows "getattr self' k = getattr self k"
  using assms
  by (auto simp: validate_content_key_def split: sum.splits prod.splits)

lemma update_globalconfig_other_key:
  assumes "update_globalconfig_from_settings self = Inr self'" and "k \<noteq> ''config''"
  shows "getattr self' k = getattr self k"
  using assms
  by (auto simp: update_globalconfig_from_settings_def Let_def
           split: if_splits pyval.splits option.splits)

lemma check_config_validity_other_key:
  assumes "k \<noteq> ''config''" "k \<noteq> ''_config_is_valid''"
  shows "getattr (check_config_validity X self) k = getattr self k"
  using assms
  by (simp add: check_config_validity_def Let_def)

lemma establish_pwd_rootpath_other_key:
  assumes "establish_pwd_rootpath env (self, ses) = (self', ses')"
    and "k \<noteq> ''_pwd''" "k \<noteq> ''_rootpath''"
  shows "getattr self' k = getattr self k"
  using assms
  by (auto simp: establish_pwd_rootpath_def Let_def split: if_splits)

lemma post_init_vertical_domain:
  assumes "post_init X env (self0, ses0) = Inr (self, ses)"
    and "\<not> settings_file_sets env ''vertical_domain''"
  shows "getattr self ''vertical_domain'' = PDict [(''depth'', PStr ''msl'')]"
proof -
  from assms(1) obtain self1 self3 self4 self5 self6 self7 ses1 ses2 where
    s3: "settings_from_env env
           (setattr self1 ''vertical_domain'' (PDict [(''depth'', PStr ''msl'')])) = Inr self3" and
    s4: "config_from_env env self3 = Inr self4" and
    s5: "validate_content_key X self4 = Inr self5" and
    s6: "update_globalconfig_from_settings self5 = Inr self6" and
    s7: "establish_pwd_rootpath env (check_config_validity X self6, ses1) = (self7, ses2)" and
    s: "self = self7"
    by (auto simp: post_init_def Let_def split: sum.splits prod.splits)
  have "getattr self3 ''vertical_domain'' = PDict [(''depth'', PStr ''msl'')]"
    using settings_from_env_other_key [OF s3 assms(2)] by simp
  then have "getattr self4 ''vertical_domain'' = PDict [(''depth'', PStr ''msl'')]"
    using config_from_env_other_key [OF s4, of "''vertical_domain''"] by simp
  then have "getattr self5 ''vertical_domain'' = PDict [(''depth'', PStr ''msl'')]"
    using validate_content_key_other_key [OF s5, of "''vertical_domain''"] by simp
  then have "getattr self6 ''vertical_domain'' = PDict [(''depth'', PStr ''msl'')]"
    using update_globalconfig_other_key [OF s6, of "''vertical_domain''"] by simp
  then have "getattr (check_config_validity X self6) ''vertical_domain''
             = PDict [(''depth'', PStr ''msl'')]"
    using check_config_validity_other_key [of "''vertical_domain''" X self6] by simp
  then have "getattr self7 ''vertical_domain'' = PDict [(''depth'', PStr ''msl'')]"
    using establish_pwd_rootpath_other_key [OF s7, of "''vertical_domain''"] by simp
  with s show ?thesis by simp
qed

text \<open>
  C10, as stated, fails: with a settings file that gives a \<open>vertical_domain\<close>, the
  construction succeeds and the field holds the value of the file, since the file is read
  after the default is stored.
\<close>

theorem vertical_domain_overridden_by_settings_file:
  "\<not> isl (ExportData_new example_externals (example_environment (Some (Some example_settings_file)))
            new_session [])
   \<and> getattr (fst (projr (ExportData_new example_externals
                            (example_environment (Some (Some example_settings_file)))
                            new_session [])))
        ''vertical_domain'' = PDict [(''time'', PStr ''msl'')]"
  by code_simp

text \<open>
  C10, amended. When the construction succeeds and no settings file gives a
  \<open>vertical_domain\<close>, the field holds depth/msl whatever the constructor was given.
\<close>

theorem vertical_domain_after_init:
  "ExportData_new X env ses kwargs = Inr (self, ses')
   \<and> \<not> settings_file_sets env ''vertical_domain''
   \<longrightarrow> getattr self ''vertical_domain'' = PDict [(''depth'', PStr ''msl'')]"
proof
  assume h: "ExportData_new X env ses kwargs = Inr (self, ses')
             \<and> \<not> settings_file_sets env ''vertical_domain''"
  then obtain self0 where "post_init X env (self0, ses) = Inr (self, ses')"
    by (auto simp: ExportData_new_def split: list.splits prod.splits)
  with h show "getattr self ''vertical_domain'' = PDict [(''depth'', PStr ''msl'')]"
    using post_init_vertical_domain by blast
qed

theorem vertical_domain_after_init_witness:
  "getattr (fst (projr (ExportData_new example_externals (example_environment None) new_session
                          [(''vertical_domain'', PDict [(''time'', PStr ''msl'')]),
                           (''content'', PStr ''depth'')])))
     ''vertical_domain'' = PDict [(''depth'', PStr ''msl'')]"
proof -
  let ?r = "ExportData_new example_externals (example_environment None) new_session
              [(''vertical_domain'', PDict [(''time'', PStr ''msl'')]),
               (''content'', PStr ''depth'')]"
  have "\<not> isl ?r"
    by code_simp
  then have 1: "?r = Inr (fst (projr ?r), snd (projr ?r))"
    by (cases ?r) auto
  have 2: "\<not> settings_file_sets (example_environment None) ''vertical_domain''"
    by code_simp
  from vertical_domain_after_init
         [of example_externals "example_environment None" new_session
             "[(''vertical_domain'', PDict [(''time'', PStr ''msl'')]),
               (''content'', PStr ''depth'')]" "fst (projr ?r)" "snd (projr ?r)"] 1 2
  show ?thesis by blast
qed

end
